theory Spec2Isabelle
  imports Main "HOL-Library.Word"
begin

unbundle bit_operations_syntax

section \<open>JavaScript values\<close>

text \<open>
  The theory embeds the class \<^verbatim>\<open>Robot\<close> of \<^verbatim>\<open>src/robot.ts\<close>: its constructor,
  \<^verbatim>\<open>request\<close> and the five message builders.

  A JavaScript string is represented by the bytes of its UTF-8 encoding (a HOL \<open>string\<close>
  is a list of 8-bit characters), so a well-formed string and its UTF-8 bytes are the same
  list. A \<^verbatim>\<open>number\<close> is an integer: the numbers of this program are timestamps, HTTP
  statuses, error codes, a timeout and a retry count; \<open>JNum n\<close> is the number that holds
  the integer \<open>n\<close>, which is exact for the safe integers (\<open>isSafeInteger\<close> below). An object is the list of its
  properties in insertion order.
\<close>

datatype json =
    JUndefined
  | JNull
  | JBool bool
  | JNum int
  | JStr string
  | JArr "json list"
  | JObj "(string \<times> json) list"

text \<open>Truthiness of an optional string, as \<^verbatim>\<open>if (x)\<close> tests it: \<^verbatim>\<open>undefined\<close> and the empty
  string are falsy.\<close>

definition truthy_string :: "string option \<Rightarrow> bool" where
  "truthy_string s = (case s of None \<Rightarrow> False | Some v \<Rightarrow> v \<noteq> [])"

text \<open>\<^verbatim>\<open>opts.timeout || 3000\<close>: the left operand when it is truthy (a number other than \<open>0\<close>),
  the right one otherwise.\<close>

definition or_default :: "int option \<Rightarrow> int \<Rightarrow> int" where
  "or_default n d = (case n of None \<Rightarrow> d | Some v \<Rightarrow> if v \<noteq> 0 then v else d)"

text \<open>Reading a property of a value that is neither \<^verbatim>\<open>null\<close> nor \<^verbatim>\<open>undefined\<close>; the program
  reads \<^verbatim>\<open>errcode\<close> and \<^verbatim>\<open>errmsg\<close> only, which no primitive and no array has.\<close>

fun get_prop :: "json \<Rightarrow> string \<Rightarrow> json" where
  "get_prop (JObj kvs) k = (case map_of kvs k of Some v \<Rightarrow> v | None \<Rightarrow> JUndefined)"
| "get_prop _ k = JUndefined"

text \<open>\<^verbatim>\<open>obj[k] = v\<close>: an existing property keeps its place, a new one goes last.\<close>

fun set_prop :: "(string \<times> json) list \<Rightarrow> string \<Rightarrow> json \<Rightarrow> (string \<times> json) list" where
  "set_prop [] k v = [(k, v)]"
| "set_prop ((k', v') # kvs) k v =
     (if k' = k then (k, v) # kvs else (k', v') # set_prop kvs k v)"

subsection \<open>Numbers and values as strings\<close>

fun digits :: "nat \<Rightarrow> string" where
  "digits n =
     (if n < 10 then [''0123456789'' ! n]
      else digits (n div 10) @ [''0123456789'' ! (n mod 10)])"

declare digits.simps [simp del]

text \<open>\<^verbatim>\<open>Number.isSafeInteger\<close>: the integers that a number holds exactly and that no other
  integer is rounded to, those of absolute value at most \<open>2\<^sup>5\<^sup>3 - 1\<close>. A reading of the clock
  (below \<open>8.64 \<times> 10\<^sup>1\<^sup>5\<close> in absolute value) and an HTTP status are among them.\<close>

definition isSafeInteger :: "int \<Rightarrow> bool" where
  "isSafeInteger n \<longleftrightarrow> - 9007199254740991 \<le> n \<and> n \<le> 9007199254740991"

text \<open>The string of a number, as a template literal and \<^verbatim>\<open>JSON.stringify\<close> write it. For a
  safe integer it is the decimal notation, with a minus sign for a negative number, and
  \<open>number_to_string\<close> is that notation. Beyond the safe integers a JavaScript number is a
  rounded value and is written with the fewest digits that identify it (from \<open>10\<^sup>2\<^sup>1\<close> on, with
  an exponent), which this function does not follow: what is proved of a number that is
  printed is proved for the safe integers.\<close>

definition number_to_string :: "int \<Rightarrow> string" where
  "number_to_string n = (if n < 0 then CHR ''-'' # digits (nat (- n)) else digits (nat n))"

fun join :: "string \<Rightarrow> string list \<Rightarrow> string" where
  "join sep [] = []"
| "join sep [x] = x"
| "join sep (x # y # ys) = x @ sep @ join sep (y # ys)"

text \<open>The string a template literal \<^verbatim>\<open>`${v}`\<close> puts in for a value.\<close>

fun to_string :: "json \<Rightarrow> string" where
  "to_string JUndefined = ''undefined''"
| "to_string JNull = ''null''"
| "to_string (JBool b) = (if b then ''true'' else ''false'')"
| "to_string (JNum n) = number_to_string n"
| "to_string (JStr s) = s"
| "to_string (JArr xs) =
     join '','' (map (\<lambda>x. if x = JUndefined \<or> x = JNull then [] else to_string x) xs)"
| "to_string (JObj kvs) = ''[object Object]''"

subsection \<open>\<^verbatim>\<open>JSON.stringify\<close>\<close>

definition hex_lower :: "nat \<Rightarrow> char" where
  "hex_lower n = ''0123456789abcdef'' ! n"

definition escape_char :: "char \<Rightarrow> string" where
  "escape_char c =
     (if c = CHR 0x22 then [CHR 0x5C, CHR 0x22]
      else if c = CHR 0x5C then [CHR 0x5C, CHR 0x5C]
      else if c = CHR 0x08 then [CHR 0x5C, CHR ''b'']
      else if c = CHR 0x09 then [CHR 0x5C, CHR ''t'']
      else if c = CHR 0x0A then [CHR 0x5C, CHR ''n'']
      else if c = CHR 0x0C then [CHR 0x5C, CHR ''f'']
      else if c = CHR 0x0D then [CHR 0x5C, CHR ''r'']
      else if (of_char c :: nat) < 32
        then [CHR 0x5C, CHR ''u'', CHR ''0'', CHR ''0'',
              hex_lower (of_char c div 16), hex_lower (of_char c mod 16)]
      else [c])"

definition quote :: "string \<Rightarrow> string" where
  "quote s = CHR 0x22 # concat (map escape_char s) @ [CHR 0x22]"

text \<open>A property whose value is \<^verbatim>\<open>undefined\<close> is left out of an object; in an array
  \<^verbatim>\<open>undefined\<close> is written \<^verbatim>\<open>null\<close>.\<close>

fun stringify :: "json \<Rightarrow> string" where
  "stringify JUndefined = ''null''"
| "stringify JNull = ''null''"
| "stringify (JBool b) = (if b then ''true'' else ''false'')"
| "stringify (JNum n) = number_to_string n"
| "stringify (JStr s) = quote s"
| "stringify (JArr xs) = ''['' @ join '','' (map stringify xs) @ '']''"
| "stringify (JObj kvs) =
     ''{'' @ join '',''
        (map (\<lambda>(k, v). quote k @ '':'' @ stringify v)
           (filter (\<lambda>(k, v). v \<noteq> JUndefined) kvs)) @ ''}''"

text \<open>\<^verbatim>\<open>JSON.stringify(v)\<close> at the top level: \<^verbatim>\<open>undefined\<close> for \<^verbatim>\<open>undefined\<close>.\<close>

definition JSON_stringify :: "json \<Rightarrow> string option" where
  "JSON_stringify v = (if v = JUndefined then None else Some (stringify v))"

text \<open>\<^verbatim>\<open>s.includes(sub)\<close>.\<close>

fun includes_str :: "string \<Rightarrow> string \<Rightarrow> bool" where
  "includes_str [] sub = (sub = [])"
| "includes_str (c # cs) sub = (take (length sub) (c # cs) = sub \<or> includes_str cs sub)"

section \<open>Platform functions used by the signature\<close>

text \<open>
  \<^verbatim>\<open>createHmac('sha256', key).update(msg).digest('base64')\<close> of Node's \<^verbatim>\<open>crypto\<close> module and
  the built-in \<^verbatim>\<open>encodeURIComponent\<close> are not part of the repository. They are written out
  here after their standards (FIPS 180-4, RFC 2104, RFC 4648, ECMA-262), so that the
  signature is a value that can be computed.
\<close>

type_synonym byte = "8 word"

definition utf8 :: "string \<Rightarrow> byte list" where
  "utf8 s = map of_char s"

subsection \<open>SHA-256 and HMAC\<close>

definition sha256_K :: "32 word list" where
  "sha256_K =
  [1116352408, 1899447441, 3049323471, 3921009573, 961987163, 1508970993,
   2453635748, 2870763221, 3624381080, 310598401, 607225278, 1426881987,
   1925078388, 2162078206, 2614888103, 3248222580, 3835390401, 4022224774,
   264347078, 604807628, 770255983, 1249150122, 1555081692, 1996064986,
   2554220882, 2821834349, 2952996808, 3210313671, 3336571891, 3584528711,
   113926993, 338241895, 666307205, 773529912, 1294757372, 1396182291,
   1695183700, 1986661051, 2177026350, 2456956037, 2730485921, 2820302411,
   3259730800, 3345764771, 3516065817, 3600352804, 4094571909, 275423344,
   430227734, 506948616, 659060556, 883997877, 958139571, 1322822218,
   1537002063, 1747873779, 1955562222, 2024104815, 2227730452, 2361852424,
   2428436474, 2756734187, 3204031479, 3329325298]"

definition sha256_H0 :: "32 word list" where
  "sha256_H0 =
  [1779033703, 3144134277, 1013904242, 2773480762,
   1359893119, 2600822924, 528734635, 1541459225]"

definition rotr :: "nat \<Rightarrow> 32 word \<Rightarrow> 32 word" where
  "rotr n w = drop_bit n w OR push_bit (32 - n) w"

definition big_sigma0 :: "32 word \<Rightarrow> 32 word" where
  "big_sigma0 x = rotr 2 x XOR rotr 13 x XOR rotr 22 x"

definition big_sigma1 :: "32 word \<Rightarrow> 32 word" where
  "big_sigma1 x = rotr 6 x XOR rotr 11 x XOR rotr 25 x"

definition small_sigma0 :: "32 word \<Rightarrow> 32 word" where
  "small_sigma0 x = rotr 7 x XOR rotr 18 x XOR drop_bit 3 x"

definition small_sigma1 :: "32 word \<Rightarrow> 32 word" where
  "small_sigma1 x = rotr 17 x XOR rotr 19 x XOR drop_bit 10 x"

definition ch :: "32 word \<Rightarrow> 32 word \<Rightarrow> 32 word \<Rightarrow> 32 word" where
  "ch x y z = (x AND y) XOR (NOT x AND z)"

definition maj :: "32 word \<Rightarrow> 32 word \<Rightarrow> 32 word \<Rightarrow> 32 word" where
  "maj x y z = (x AND y) XOR (x AND z) XOR (y AND z)"

text \<open>Padding: the byte \<open>0x80\<close>, zero bytes up to 56 modulo 64, the length in bits on 8 bytes.\<close>

definition length_bytes :: "nat \<Rightarrow> byte list" where
  "length_bytes n =
     map (\<lambda>i. ucast (drop_bit (8 * (7 - i)) (word_of_nat n :: 64 word))) [0..<8]"

definition sha256_pad :: "byte list \<Rightarrow> byte list" where
  "sha256_pad m =
     m @ [0x80] @ replicate ((119 - length m mod 64) mod 64) 0 @ length_bytes (8 * length m)"

fun be_words :: "byte list \<Rightarrow> 32 word list" where
  "be_words (a # b # c # d # rest) =
     (push_bit 24 (ucast a) OR push_bit 16 (ucast b) OR push_bit 8 (ucast c) OR ucast d)
       # be_words rest"
| "be_words _ = []"

fun chunks :: "nat \<Rightarrow> 'a list \<Rightarrow> 'a list list" where
  "chunks n xs = (if n = 0 \<or> xs = [] then [] else take n xs # chunks n (drop n xs))"

declare chunks.simps [simp del]

fun schedule :: "nat \<Rightarrow> 32 word list \<Rightarrow> 32 word list" where
  "schedule 0 ws = ws"
| "schedule (Suc k) ws =
     (let t = length ws
      in schedule k (ws @ [small_sigma1 (ws ! (t - 2)) + ws ! (t - 7)
                           + small_sigma0 (ws ! (t - 15)) + ws ! (t - 16)]))"

type_synonym sha_state =
  "32 word \<times> 32 word \<times> 32 word \<times> 32 word \<times> 32 word \<times> 32 word \<times> 32 word \<times> 32 word"

definition sha_round :: "sha_state \<Rightarrow> 32 word \<times> 32 word \<Rightarrow> sha_state" where
  "sha_round s kw =
     (case s of (a, b, c, d, e, f, g, h) \<Rightarrow>
        let t1 = h + big_sigma1 e + ch e f g + fst kw + snd kw;
            t2 = big_sigma0 a + maj a b c
        in (t1 + t2, a, b, c, d + t1, e, f, g))"

definition compress :: "32 word list \<Rightarrow> byte list \<Rightarrow> 32 word list" where
  "compress hs block =
     (case hs of
        [h0, h1, h2, h3, h4, h5, h6, h7] \<Rightarrow>
          (case foldl sha_round (h0, h1, h2, h3, h4, h5, h6, h7)
                  (zip sha256_K (schedule 48 (be_words block))) of
             (a, b, c, d, e, f, g, h) \<Rightarrow>
               [h0 + a, h1 + b, h2 + c, h3 + d, h4 + e, h5 + f, h6 + g, h7 + h])
      | _ \<Rightarrow> hs)"

definition word_bytes :: "32 word \<Rightarrow> byte list" where
  "word_bytes w = [ucast (drop_bit 24 w), ucast (drop_bit 16 w), ucast (drop_bit 8 w), ucast w]"

definition sha256 :: "byte list \<Rightarrow> byte list" where
  "sha256 m = concat (map word_bytes (foldl compress sha256_H0 (chunks 64 (sha256_pad m))))"

definition hmac_sha256 :: "byte list \<Rightarrow> byte list \<Rightarrow> byte list" where
  "hmac_sha256 key msg =
     (let k0 = (if length key > 64 then sha256 key else key);
          k = k0 @ replicate (64 - length k0) 0
      in sha256 (map (\<lambda>b. b XOR 0x5c) k @ sha256 (map (\<lambda>b. b XOR 0x36) k @ msg)))"

subsection \<open>Base64 and \<^verbatim>\<open>encodeURIComponent\<close>\<close>

definition base64_alphabet :: string where
  "base64_alphabet = ''ABCDEFGHIJKLMNOPQRSTUVWXYZabcdefghijklmnopqrstuvwxyz0123456789+/''"

definition b64 :: "nat \<Rightarrow> char" where
  "b64 n = base64_alphabet ! (n mod 64)"

fun base64 :: "byte list \<Rightarrow> string" where
  "base64 [] = []"
| "base64 [a] = [b64 (unat a div 4), b64 (unat a mod 4 * 16), CHR ''='', CHR ''='']"
| "base64 [a, b] =
     [b64 (unat a div 4), b64 (unat a mod 4 * 16 + unat b div 16),
      b64 (unat b mod 16 * 4), CHR ''='']"
| "base64 (a # b # c # rest) =
     [b64 (unat a div 4), b64 (unat a mod 4 * 16 + unat b div 16),
      b64 (unat b mod 16 * 4 + unat c div 64), b64 (unat c mod 64)] @ base64 rest"

text \<open>The characters \<^verbatim>\<open>encodeURIComponent\<close> leaves as they are: letters, digits and
  \<^verbatim>\<open>- _ . ! ~ * ' ( )\<close>. Every other byte becomes \<^verbatim>\<open>%XX\<close> in upper-case hexadecimal.\<close>

definition uri_unescaped :: "char \<Rightarrow> bool" where
  "uri_unescaped c \<longleftrightarrow>
     c \<in> set (''ABCDEFGHIJKLMNOPQRSTUVWXYZabcdefghijklmnopqrstuvwxyz0123456789-_.!~*()''
              @ [CHR 0x27])"

definition hex_upper :: "nat \<Rightarrow> char" where
  "hex_upper n = ''0123456789ABCDEF'' ! (n mod 16)"

definition encode_char :: "char \<Rightarrow> string" where
  "encode_char c =
     (if uri_unescaped c then [c]
      else [CHR ''%'', hex_upper (of_char c div 16), hex_upper (of_char c mod 16)])"

definition encodeURIComponent :: "string \<Rightarrow> string" where
  "encodeURIComponent s = concat (map encode_char s)"

text \<open>A string is safe in a URL query when it is made of the unreserved characters of
  RFC 3986 (letters, digits, \<^verbatim>\<open>- . _ ~\<close>) and of escapes \<^verbatim>\<open>%XX\<close> with two hexadecimal
  digits.\<close>

definition unreserved :: "char \<Rightarrow> bool" where
  "unreserved c \<longleftrightarrow>
     c \<in> set ''ABCDEFGHIJKLMNOPQRSTUVWXYZabcdefghijklmnopqrstuvwxyz0123456789-._~''"

definition is_hex :: "char \<Rightarrow> bool" where
  "is_hex c \<longleftrightarrow> c \<in> set ''0123456789ABCDEFabcdef''"

fun url_safe :: "string \<Rightarrow> bool" where
  "url_safe [] = True"
| "url_safe (c # cs) =
     (if c = CHR ''%''
      then (case cs of h1 # h2 # rest \<Rightarrow> is_hex h1 \<and> is_hex h2 \<and> url_safe rest | _ \<Rightarrow> False)
      else unreserved c \<and> url_safe cs)"

section \<open>The interfaces of \<^verbatim>\<open>robot.ts\<close>\<close>

text \<open>
  The interfaces of lines 5 to 63 constrain what a caller may write; they are erased when the
  file is compiled, and at run time an argument is the value the caller passes. \<^verbatim>\<open>link\<close>,
  \<^verbatim>\<open>actionCard\<close> and \<^verbatim>\<open>feedCard\<close> read no property of their argument, and \<^verbatim>\<open>text\<close> and
  \<^verbatim>\<open>markdown\<close> read no property of \<^verbatim>\<open>at\<close>: each of these objects is put into the payload as
  it is. So an \<open>IMentions\<close>, an \<open>ILinkReq\<close>, an \<open>IActionCardReq\<close> and an \<open>IFeedCardReq\<close> are
  JavaScript values here, with the properties the caller gave them, in the caller's order.
  The declared shapes are
  \<^verbatim>\<open>{atMobiles?, atUserIds?, isAtAll?}\<close>, \<^verbatim>\<open>{text, title, messageUrl, picUrl?}\<close>,
  \<^verbatim>\<open>{title, text, singleTitle, singleURL}\<close> or \<^verbatim>\<open>{title, text, btnOrientation, btns}\<close> with
  buttons \<^verbatim>\<open>{title, actionURL}\<close>, and \<^verbatim>\<open>{links}\<close> with links \<^verbatim>\<open>{title, messageURL, picURL}\<close>.

  Where two interfaces have a field of one name (\<^verbatim>\<open>title\<close>, \<^verbatim>\<open>text\<close>, \<^verbatim>\<open>at\<close>), the name carries
  the interface as a prefix. An optional field that the caller left out is \<open>None\<close>.
\<close>

record RobotConstructorOptions =
  url :: "string option"
  accessToken :: "string option"
  secret :: "string option"
  timeout :: "int option"
  retries :: "int option"

type_synonym IMentions = json

type_synonym ILinkReq = json

type_synonym IActionCardReq = json

type_synonym IFeedCardReq = json

record ITextReq =
  content :: string
  text_at :: "IMentions option"

record IMarkdownReq =
  markdown_title :: string
  markdown_text :: string
  markdown_at :: "IMentions option"

text \<open>Reading \<^verbatim>\<open>arg.at\<close> (lines 174 and 199): the caller's object, or \<^verbatim>\<open>undefined\<close> when the
  property is absent.\<close>

definition at_value :: "IMentions option \<Rightarrow> json" where
  "at_value a = (case a of None \<Rightarrow> JUndefined | Some m \<Rightarrow> m)"

section \<open>The HTTP client and its retry plugin\<close>

text \<open>
  \<^verbatim>\<open>axios\<close> and \<^verbatim>\<open>axios-retry\<close> are dependencies of the repository; their code is not in
  \<^verbatim>\<open>src/\<close>. The records below are the parts of their data the program writes or reads.
\<close>

record AxiosRequestConfig =
  cfg_method :: string
  cfg_url :: string
  cfg_timeout :: int
  cfg_headers :: "(string \<times> string) list"
  cfg_params :: "(string \<times> json) list"
  cfg_data :: "string option"

record AxiosResponse =
  status :: int
  data :: json

record AxiosError =
  code :: "string option"
  message :: string
  config :: AxiosRequestConfig
  response :: "AxiosResponse option"

record IAxiosRetryConfig =
  opt_retries :: int
  opt_shouldResetTimeout :: bool
  opt_retryDelay :: "int \<Rightarrow> AxiosError \<Rightarrow> int"
  opt_retryCondition :: "AxiosError \<Rightarrow> bool"

record AxiosInstance =
  inst_validateStatus :: "int \<Rightarrow> bool"
  inst_interceptor :: "int \<Rightarrow> AxiosRequestConfig \<Rightarrow> AxiosRequestConfig"
  inst_retry :: IAxiosRetryConfig

text \<open>
  What one attempt meets on the network: a response with a status and a parsed body, or a
  failure without a response (connection refused, reset, timeout), with the error code and
  message the adapter gives it.
\<close>

datatype adapter_result = Responded AxiosResponse | Failed "string option" string

text \<open>
  The world of one call of \<^verbatim>\<open>request\<close>: the reading of \<^verbatim>\<open>Date.now()\<close> at line 134, the
  reading of \<^verbatim>\<open>Date.now()\<close> by the interceptor (line 92) at each attempt, what the network
  answers to each attempt, and the time each failed attempt took.
\<close>

record Env =
  now_request :: int
  now_interceptor :: "nat \<Rightarrow> int"
  transport :: "nat \<Rightarrow> AxiosRequestConfig \<Rightarrow> adapter_result"
  elapsed :: "nat \<Rightarrow> int"

text \<open>What a call does that can be observed: the requests put on the network and the waits
  between them, in order.\<close>

datatype event = Call AxiosRequestConfig | Delay int

subsection \<open>\<^verbatim>\<open>axios\<close>: settling a response\<close>

text \<open>
  Modelled from the spec: \<^verbatim>\<open>axios\<close> is not in \<^verbatim>\<open>src/\<close>. "A response is only considered
  transport-successful when its HTTP status is in [200,300); anything else is a transport
  failure subject to the retry predicate": the status is tested with the \<^verbatim>\<open>validateStatus\<close>
  the program configures (a response without a status is let through), and a refused
  response becomes an error that carries the response. The error code and message are
  those of \<^verbatim>\<open>axios\<close> (0.27 and later).
\<close>

definition bad_status_code :: "int \<Rightarrow> string option" where
  "bad_status_code s =
     (if 400 \<le> s \<and> s < 500 then Some ''ERR_BAD_REQUEST''
      else if 500 \<le> s \<and> s < 600 then Some ''ERR_BAD_RESPONSE''
      else None)"

definition settle ::
  "(int \<Rightarrow> bool) \<Rightarrow> AxiosRequestConfig \<Rightarrow> adapter_result \<Rightarrow> AxiosError + AxiosResponse" where
  "settle validate cfg r =
     (case r of
        Responded resp \<Rightarrow>
          if status resp = 0 \<or> validate (status resp) then Inr resp
          else Inl \<lparr> code = bad_status_code (status resp),
                     message = ''Request failed with status code '' @ number_to_string (status resp),
                     config = cfg,
                     response = Some resp \<rparr>
      | Failed c m \<Rightarrow> Inl \<lparr> code = c, message = m, config = cfg, response = None \<rparr>)"

subsection \<open>\<^verbatim>\<open>axios-retry\<close>\<close>

text \<open>
  Modelled from the spec: \<^verbatim>\<open>axiosRetry.isNetworkOrIdempotentRequestError\<close> is not in
  \<^verbatim>\<open>src/\<close>. "Retry when the failure is a network-level or idempotent-request error
  (connection refused, DNS failure, reset, etc.)": a network error has no response and an
  error code that is not the abort code and that the plugin's list of codes allows
  (\<open>isRetryAllowed\<close>, a parameter); an idempotent-request error is a failure without
  response, or with a 5xx response, of a request whose method, in lower case, is
  idempotent. The program sends \<^verbatim>\<open>POST\<close> only.
\<close>

definition isNetworkError :: "(string \<Rightarrow> bool) \<Rightarrow> AxiosError \<Rightarrow> bool" where
  "isNetworkError isRetryAllowed err \<longleftrightarrow>
     response err = None \<and>
     (case code err of None \<Rightarrow> False
      | Some c \<Rightarrow> c \<noteq> [] \<and> c \<noteq> ''ECONNABORTED'' \<and> isRetryAllowed c)"

definition isRetryableError :: "AxiosError \<Rightarrow> bool" where
  "isRetryableError err \<longleftrightarrow>
     code err \<noteq> Some ''ECONNABORTED'' \<and>
     (case response err of None \<Rightarrow> True | Some r \<Rightarrow> 500 \<le> status r \<and> status r \<le> 599)"

definition to_lower :: "char \<Rightarrow> char" where
  "to_lower c =
     (case map_of (zip ''ABCDEFGHIJKLMNOPQRSTUVWXYZ'' ''abcdefghijklmnopqrstuvwxyz'') c of
        Some l \<Rightarrow> l | None \<Rightarrow> c)"

definition isIdempotentRequestError :: "AxiosError \<Rightarrow> bool" where
  "isIdempotentRequestError err \<longleftrightarrow>
     isRetryableError err \<and>
     map to_lower (cfg_method (config err)) \<in> set [''get'', ''head'', ''options'', ''put'', ''delete'']"

definition isNetworkOrIdempotentRequestError :: "(string \<Rightarrow> bool) \<Rightarrow> AxiosError \<Rightarrow> bool" where
  "isNetworkOrIdempotentRequestError isRetryAllowed err \<longleftrightarrow>
     isNetworkError isRetryAllowed err \<or> isIdempotentRequestError err"

text \<open>
  Modelled from the spec: the retry loop that \<^verbatim>\<open>axiosRetry(axiosInstance, options)\<close> installs
  is not in \<^verbatim>\<open>src/\<close>. "Transport-level retry policy, evaluated per failed attempt, up to
  \<open>maxRetries\<close> additional attempts, each after a fixed 1000 ms delay, with the per-attempt
  timeout reset on every retry": attempt \<open>i\<close> (from 0) sends the request through the
  instance's request interceptor; a failed attempt is retried when fewer than
  \<open>retries\<close> retries were made and \<open>retryCondition\<close> accepts the error, after
  \<open>retryDelay\<close> milliseconds. When \<open>shouldResetTimeout\<close> is not set, the plugin takes
  the time the attempt took and the delay off the timeout of the next attempt (not below 1).
\<close>

function axios_attempt ::
  "AxiosInstance \<Rightarrow> Env \<Rightarrow> nat \<Rightarrow> AxiosRequestConfig \<Rightarrow> (AxiosError + AxiosResponse) \<times> event list" where
  "axios_attempt inst env i cfg =
     (let sent = inst_interceptor inst (now_interceptor env i) cfg in
      case settle (inst_validateStatus inst) sent (transport env i sent) of
        Inr resp \<Rightarrow> (Inr resp, [Call sent])
      | Inl err \<Rightarrow>
          if int i < opt_retries (inst_retry inst) \<and> opt_retryCondition (inst_retry inst) err
          then
            let delay = opt_retryDelay (inst_retry inst) (int i + 1) err;
                again =
                  (if \<not> opt_shouldResetTimeout (inst_retry inst) \<and> cfg_timeout sent \<noteq> 0
                   then sent \<lparr> cfg_timeout := max (cfg_timeout sent - elapsed env i - delay) 1 \<rparr>
                   else sent);
                rest = axios_attempt inst env (Suc i) again
            in (fst rest, Call sent # Delay delay # snd rest)
          else (Inl err, [Call sent]))"
  by pat_completeness auto
termination
  by (relation "measure (\<lambda>(inst, env, i, cfg). nat (opt_retries (inst_retry inst) - int i))") auto

declare axios_attempt.simps [simp del]

definition axios_request ::
  "AxiosInstance \<Rightarrow> Env \<Rightarrow> AxiosRequestConfig \<Rightarrow> (AxiosError + AxiosResponse) \<times> event list" where
  "axios_request inst env cfg = axios_attempt inst env 0 cfg"

section \<open>The class \<^verbatim>\<open>Robot\<close>\<close>

record Robot =
  priv_url :: "string option"
  priv_secret :: "string option"
  priv_timeout :: int
  priv_retries :: int
  priv_axiosInstance :: AxiosInstance

subsection \<open>The constructor (lines 72 to 125)\<close>

definition validateStatus :: "int \<Rightarrow> bool" where
  "validateStatus s \<longleftrightarrow> s \<ge> 200 \<and> s < 300"

definition request_interceptor :: "int \<Rightarrow> AxiosRequestConfig \<Rightarrow> AxiosRequestConfig" where
  "request_interceptor now request =
     request \<lparr> cfg_params := set_prop (cfg_params request) ''_'' (JNum now) \<rparr>"

definition retryDelay :: "int \<Rightarrow> AxiosError \<Rightarrow> int" where
  "retryDelay retryCount err = 1000"

definition retryCondition :: "(string \<Rightarrow> bool) \<Rightarrow> AxiosError \<Rightarrow> bool" where
  "retryCondition isRetryAllowed err =
     (if isNetworkOrIdempotentRequestError isRetryAllowed err then True
      else if code err = Some ''ECONNABORTED'' \<and> includes_str (message err) ''timeout'' then True
      else if code err = Some ''ETIMEDOUT'' then True
      else if (case response err of None \<Rightarrow> False | Some r \<Rightarrow> status r \<ge> 500) then True
      else False)"

definition new_Robot :: "(string \<Rightarrow> bool) \<Rightarrow> RobotConstructorOptions \<Rightarrow> Robot" where
  "new_Robot isRetryAllowed opts =
     (let url1 = (case accessToken opts of
                    Some token \<Rightarrow>
                      if token \<noteq> []
                      then Some (''https://oapi.dingtalk.com/robot/send?access_token='' @ token)
                      else url opts
                  | None \<Rightarrow> url opts);
          timeout1 = or_default (timeout opts) 3000;
          retries1 = or_default (retries opts) 10
      in \<lparr> priv_url = url1,
           priv_secret = secret opts,
           priv_timeout = timeout1,
           priv_retries = retries1,
           priv_axiosInstance =
             \<lparr> inst_validateStatus = validateStatus,
               inst_interceptor = request_interceptor,
               inst_retry =
                 \<lparr> opt_retries = retries1,
                   opt_shouldResetTimeout = True,
                   opt_retryDelay = retryDelay,
                   opt_retryCondition = retryCondition isRetryAllowed \<rparr> \<rparr> \<rparr>)"

text \<open>The warning the constructor prints (line 81).\<close>

definition constructor_warnings :: "(string \<Rightarrow> bool) \<Rightarrow> RobotConstructorOptions \<Rightarrow> string list" where
  "constructor_warnings isRetryAllowed opts =
     (if truthy_string (priv_url (new_Robot isRetryAllowed opts)) then []
      else [''url is empty, all operations will ignore''])"

subsection \<open>\<^verbatim>\<open>request\<close> (lines 127 to 163)\<close>

text \<open>
  How a call ends: \<open>NotSent\<close> when \<^verbatim>\<open>request\<close> returns \<^verbatim>\<open>undefined\<close> at line 129 without
  making a promise, \<open>Resolved\<close> when the promise is fulfilled, \<open>Rejected\<close> with the error
  when it is rejected: the error of the HTTP client, the \<^verbatim>\<open>Error\<close> thrown at line 158, or the
  \<^verbatim>\<open>TypeError\<close> of destructuring a body that is \<^verbatim>\<open>null\<close> or \<^verbatim>\<open>undefined\<close> (line 156).
\<close>

datatype js_error = AxiosErr AxiosError | Error string | TypeError

datatype outcome = NotSent | Resolved | Rejected js_error

text \<open>Lines 134 to 137: the signature of a timestamp under a secret.\<close>

definition sign :: "string \<Rightarrow> int \<Rightarrow> string" where
  "sign key timestamp =
     encodeURIComponent
       (base64 (hmac_sha256 (utf8 key)
                  (utf8 (number_to_string timestamp @ [CHR 0x0A] @ key))))"

text \<open>Lines 155 to 162: the handler of the response.\<close>

definition then_handler :: "AxiosResponse \<Rightarrow> outcome" where
  "then_handler resp =
     (if data resp = JNull \<or> data resp = JUndefined then Rejected TypeError
      else
        let errcode = get_prop (data resp) ''errcode'';
            errmsg = get_prop (data resp) ''errmsg''
        in if errcode \<noteq> JNum 0
           then Rejected (Error (''request dingtalk fail, errorcode '' @ [CHR 0x27] @ to_string errcode
                                 @ [CHR 0x27] @ '', errormsg '' @ [CHR 0x27] @ to_string errmsg
                                 @ [CHR 0x27]))
           else Resolved)"

definition request_params :: "Robot \<Rightarrow> Env \<Rightarrow> (string \<times> json) list" where
  "request_params r env =
     (case priv_secret r of
        None \<Rightarrow> []
      | Some k \<Rightarrow>
          if k = [] then []
          else
            let timestamp = now_request env
            in [(''timestamp'', JNum timestamp), (''sign'', JStr (sign k timestamp))])"

definition request_config :: "Robot \<Rightarrow> Env \<Rightarrow> string \<Rightarrow> json \<Rightarrow> AxiosRequestConfig" where
  "request_config r env u d =
     \<lparr> cfg_method = ''POST'',
       cfg_url = u,
       cfg_timeout = priv_timeout r,
       cfg_headers = [(''Content-Type'', ''application/json'')],
       cfg_params = request_params r env,
       cfg_data = JSON_stringify d \<rparr>"

definition request :: "Robot \<Rightarrow> Env \<Rightarrow> json \<Rightarrow> outcome \<times> event list" where
  "request r env d =
     (case priv_url r of
        None \<Rightarrow> (NotSent, [])
      | Some u \<Rightarrow>
          if u = [] then (NotSent, [])
          else
            let res = axios_request (priv_axiosInstance r) env (request_config r env u d)
            in (case fst res of
                  Inl err \<Rightarrow> Rejected (AxiosErr err)
                | Inr resp \<Rightarrow> then_handler resp,
                snd res))"

subsection \<open>The message builders (lines 165 to 231)\<close>

text \<open>The argument of \<^verbatim>\<open>text\<close> is a string or an \<open>ITextReq\<close>; the first argument of
  \<^verbatim>\<open>markdown\<close> is a string or an \<open>IMarkdownReq\<close>, and its second argument may be absent.
  Each builder makes its object literal (\<open>text_payload\<close> and the like) and hands it to
  \<^verbatim>\<open>request\<close>. \<^verbatim>\<open>text\<close> and \<^verbatim>\<open>markdown\<close> make the inner object themselves, with the
  properties in the order of the literal and the caller's \<^verbatim>\<open>at\<close> as its last property;
  \<^verbatim>\<open>link\<close>, \<^verbatim>\<open>actionCard\<close> and \<^verbatim>\<open>feedCard\<close> put their argument itself under the key
  (\<^verbatim>\<open>link: data\<close>, line 215). The method \<^verbatim>\<open>text\<close> is named \<open>robot_text\<close> here, \<open>text\<close> being a
  keyword.\<close>

definition text_payload :: "string + ITextReq \<Rightarrow> json" where
  "text_payload arg =
     (let content_at =
            (case arg of
               Inl s \<Rightarrow> (s, JUndefined)
             | Inr req \<Rightarrow> (content req, at_value (text_at req)))
      in JObj [(''msgtype'', JStr ''text''),
               (''text'', JObj [(''content'', JStr (fst content_at)), (''at'', snd content_at)])])"

definition markdown_payload :: "string + IMarkdownReq \<Rightarrow> string option \<Rightarrow> json" where
  "markdown_payload arg1 arg2 =
     (let title_text_at =
            (case arg1 of
               Inl s \<Rightarrow> (JStr s, case arg2 of None \<Rightarrow> JUndefined | Some t \<Rightarrow> JStr t, JUndefined)
             | Inr req \<Rightarrow>
                 (JStr (markdown_title req), JStr (markdown_text req), at_value (markdown_at req)))
      in JObj [(''msgtype'', JStr ''markdown''),
               (''markdown'', JObj [(''title'', fst title_text_at),
                                    (''text'', fst (snd title_text_at)),
                                    (''at'', snd (snd title_text_at))])])"

definition link_payload :: "ILinkReq \<Rightarrow> json" where
  "link_payload d = JObj [(''msgtype'', JStr ''link''), (''link'', d)]"

definition actionCard_payload :: "IActionCardReq \<Rightarrow> json" where
  "actionCard_payload d =
     JObj [(''msgtype'', JStr ''actionCard''), (''actionCard'', d)]"

definition feedCard_payload :: "IFeedCardReq \<Rightarrow> json" where
  "feedCard_payload d = JObj [(''msgtype'', JStr ''feedCard''), (''feedCard'', d)]"

definition robot_text :: "Robot \<Rightarrow> Env \<Rightarrow> string + ITextReq \<Rightarrow> outcome \<times> event list" where
  "robot_text r env arg = request r env (text_payload arg)"

definition markdown ::
  "Robot \<Rightarrow> Env \<Rightarrow> string + IMarkdownReq \<Rightarrow> string option \<Rightarrow> outcome \<times> event list" where
  "markdown r env arg1 arg2 = request r env (markdown_payload arg1 arg2)"

definition link :: "Robot \<Rightarrow> Env \<Rightarrow> ILinkReq \<Rightarrow> outcome \<times> event list" where
  "link r env d = request r env (link_payload d)"

definition actionCard :: "Robot \<Rightarrow> Env \<Rightarrow> IActionCardReq \<Rightarrow> outcome \<times> event list" where
  "actionCard r env d = request r env (actionCard_payload d)"

definition feedCard :: "Robot \<Rightarrow> Env \<Rightarrow> IFeedCardReq \<Rightarrow> outcome \<times> event list" where
  "feedCard r env d = request r env (feedCard_payload d)"

subsection \<open>Calls on an object\<close>

text \<open>
  A method call leaves the object as it is: no method of the class assigns a field, and the
  private fields cannot be written from outside the class. \<open>invoke\<close> is one call of a
  public method, \<open>run_calls\<close> a sequence of calls, each in a world of its own.
\<close>

datatype method_call =
    CallText "string + ITextReq"
  | CallMarkdown "string + IMarkdownReq" "string option"
  | CallLink ILinkReq
  | CallActionCard IActionCardReq
  | CallFeedCard IFeedCardReq
  | CallRequest json

fun invoke :: "Robot \<Rightarrow> Env \<Rightarrow> method_call \<Rightarrow> Robot \<times> outcome \<times> event list" where
  "invoke r env (CallText arg) = (r, robot_text r env arg)"
| "invoke r env (CallMarkdown arg1 arg2) = (r, markdown r env arg1 arg2)"
| "invoke r env (CallLink d) = (r, link r env d)"
| "invoke r env (CallActionCard d) = (r, actionCard r env d)"
| "invoke r env (CallFeedCard d) = (r, feedCard r env d)"
| "invoke r env (CallRequest d) = (r, request r env d)"

fun run_calls :: "Robot \<Rightarrow> (Env \<times> method_call) list \<Rightarrow> Robot \<times> (outcome \<times> event list) list" where
  "run_calls r [] = (r, [])"
| "run_calls r ((env, c) # cs) =
     (let step = invoke r env c;
          rest = run_calls (fst step) cs
      in (fst rest, snd step # snd rest))"

subsection \<open>Reading a trace\<close>

text \<open>The requests of a trace, in order: the \<open>j\<close>-th is the request of attempt \<open>j\<close>.\<close>

fun calls :: "event list \<Rightarrow> AxiosRequestConfig list" where
  "calls [] = []"
| "calls (Call c # es) = c # calls es"
| "calls (Delay ms # es) = calls es"

subsection \<open>Reading a payload\<close>



section \<open>Examples of the platform functions\<close>

lemma number_to_string_examples:
  "number_to_string 1699999999123 = ''1699999999123''"
  "number_to_string 0 = ''0''"
  "number_to_string (- 42) = ''-42''"
  by (simp_all add: number_to_string_def digits.simps)

lemma base64_examples:
  "base64 (utf8 ''Man'') = ''TWFu''"
  "base64 (utf8 ''Ma'') = ''TWE=''"
  "base64 (utf8 ''M'') = ''TQ==''"
  by (simp_all add: utf8_def b64_def base64_alphabet_def)

lemma encodeURIComponent_example:
  "encodeURIComponent ''a+b/c= d'' = ''a%2Bb%2Fc%3D%20d''"
  by (simp add: encodeURIComponent_def encode_char_def uri_unescaped_def hex_upper_def)

lemma stringify_example:
  \<open>stringify (JObj [(''a'', JArr [JNum 1, JUndefined, JBool True]), (''b'', JUndefined),
                   (''c'', JStr [CHR ''x'', CHR 0x22, CHR 0x0A])]) =
     ''{"a":[1,null,true],"c":"x'' @ [CHR 0x5C, CHR 0x22, CHR 0x5C] @ ''n"}''\<close>
  by (simp add: quote_def escape_char_def number_to_string_def digits.simps)

section \<open>The constructor's configuration\<close>

lemma new_Robot_timeout:
  "priv_timeout (new_Robot ra opts) = or_default (timeout opts) 3000"
  by (simp add: new_Robot_def Let_def)

lemma new_Robot_retries:
  "priv_retries (new_Robot ra opts) = or_default (retries opts) 10"
  by (simp add: new_Robot_def Let_def)

lemma invoke_same_robot: "fst (invoke r env c) = r"
  by (cases c) simp_all

lemma run_calls_same_robot: "fst (run_calls r cs) = r"
  by (induction cs arbitrary: r) (auto simp: Let_def invoke_same_robot)

lemma new_Robot_instance:
  "inst_validateStatus (priv_axiosInstance (new_Robot ra opts)) = validateStatus"
  "inst_interceptor (priv_axiosInstance (new_Robot ra opts)) = request_interceptor"
  "opt_retries (inst_retry (priv_axiosInstance (new_Robot ra opts))) = priv_retries (new_Robot ra opts)"
  "opt_shouldResetTimeout (inst_retry (priv_axiosInstance (new_Robot ra opts)))"
  "opt_retryDelay (inst_retry (priv_axiosInstance (new_Robot ra opts))) = retryDelay"
  "opt_retryCondition (inst_retry (priv_axiosInstance (new_Robot ra opts))) = retryCondition ra"
  by (simp_all add: new_Robot_def Let_def)

section \<open>The request interceptor\<close>

lemma set_prop_twice: "set_prop (set_prop ps k v) k w = set_prop ps k w"
  by (induction ps) auto

lemma map_of_set_prop_same: "map_of (set_prop ps k v) k = Some v"
  by (induction ps) auto

lemma map_of_set_prop_other: "k' \<noteq> k \<Longrightarrow> map_of (set_prop ps k v) k' = map_of ps k'"
  by (induction ps) auto

lemma request_interceptor_twice:
  "request_interceptor n (request_interceptor m c) = request_interceptor n c"
  by (simp add: request_interceptor_def set_prop_twice)

lemma request_interceptor_fields:
  "cfg_method (request_interceptor n c) = cfg_method c"
  "cfg_url (request_interceptor n c) = cfg_url c"
  "cfg_timeout (request_interceptor n c) = cfg_timeout c"
  "cfg_headers (request_interceptor n c) = cfg_headers c"
  "cfg_data (request_interceptor n c) = cfg_data c"
  "cfg_params (request_interceptor n c) = set_prop (cfg_params c) ''_'' (JNum n)"
  by (simp_all add: request_interceptor_def)

section \<open>The retry loop under the constructor's options\<close>

text \<open>One attempt of the loop, with the options the constructor passes: the interceptor of
  line 90, \<open>validateStatus\<close> of line 85, the delay of 1000 ms and \<open>shouldResetTimeout\<close>.\<close>

lemma robot_attempt:
  "axios_attempt (priv_axiosInstance (new_Robot ra opts)) env i cfg =
     (case settle validateStatus (request_interceptor (now_interceptor env i) cfg)
             (transport env i (request_interceptor (now_interceptor env i) cfg)) of
        Inr resp \<Rightarrow> (Inr resp, [Call (request_interceptor (now_interceptor env i) cfg)])
      | Inl err \<Rightarrow>
          if int i < priv_retries (new_Robot ra opts) \<and> retryCondition ra err
          then (fst (axios_attempt (priv_axiosInstance (new_Robot ra opts)) env (Suc i)
                       (request_interceptor (now_interceptor env i) cfg)),
                Call (request_interceptor (now_interceptor env i) cfg) # Delay 1000 #
                snd (axios_attempt (priv_axiosInstance (new_Robot ra opts)) env (Suc i)
                       (request_interceptor (now_interceptor env i) cfg)))
          else (Inl err, [Call (request_interceptor (now_interceptor env i) cfg)]))"
  by (subst axios_attempt.simps)
     (simp add: new_Robot_instance Let_def retryDelay_def split: sum.splits)

text \<open>The requests of a call are the configuration handed to the client, with the
  parameter \<^verbatim>\<open>_\<close> of the attempt: nothing else changes from one attempt to the next.\<close>

lemma robot_attempt_calls:
  "calls (snd (axios_attempt (priv_axiosInstance (new_Robot ra opts)) env i cfg)) =
     map (\<lambda>j. request_interceptor (now_interceptor env j) cfg)
       [i ..< i + length (calls (snd (axios_attempt (priv_axiosInstance (new_Robot ra opts)) env i cfg)))]"
proof (induction "nat (priv_retries (new_Robot ra opts) - int i)" arbitrary: i cfg)
  case 0
  then have "\<not> int i < priv_retries (new_Robot ra opts)" by simp
  then show ?case
    by (subst (1 2) robot_attempt) (simp split: sum.splits)
next
  case (Suc m)
  let ?sent = "request_interceptor (now_interceptor env i) cfg"
  have m: "m = nat (priv_retries (new_Robot ra opts) - int (Suc i))"
    using Suc.hyps(2) by simp
  have ih: "calls (snd (axios_attempt (priv_axiosInstance (new_Robot ra opts)) env (Suc i) ?sent)) =
     map (\<lambda>j. request_interceptor (now_interceptor env j) cfg)
       [Suc i ..< Suc i + length (calls (snd (axios_attempt (priv_axiosInstance (new_Robot ra opts)) env (Suc i) ?sent)))]"
    using Suc.hyps(1)[OF m, of ?sent] by (simp add: request_interceptor_twice)
  let ?rest = "calls (snd (axios_attempt (priv_axiosInstance (new_Robot ra opts)) env (Suc i) ?sent))"
  show ?case
  proof (cases "settle validateStatus ?sent (transport env i ?sent)")
    case (Inr resp)
    then have "calls (snd (axios_attempt (priv_axiosInstance (new_Robot ra opts)) env i cfg)) = [?sent]"
      by (subst robot_attempt) simp
    then show ?thesis by simp
  next
    case (Inl err)
    show ?thesis
    proof (cases "int i < priv_retries (new_Robot ra opts) \<and> retryCondition ra err")
      case True
      have "calls (snd (axios_attempt (priv_axiosInstance (new_Robot ra opts)) env i cfg)) = ?sent # ?rest"
        by (subst robot_attempt) (simp add: Inl True)
      moreover have "map (\<lambda>j. request_interceptor (now_interceptor env j) cfg) [i ..< i + Suc (length ?rest)]
          = ?sent # map (\<lambda>j. request_interceptor (now_interceptor env j) cfg) [Suc i ..< Suc i + length ?rest]"
        by (simp del: upt_Suc add: upt_conv_Cons)
      ultimately show ?thesis using ih by (simp del: upt_Suc)
    next
      case False
      have "calls (snd (axios_attempt (priv_axiosInstance (new_Robot ra opts)) env i cfg)) = [?sent]"
        by (subst robot_attempt) (simp add: Inl False)
      then show ?thesis by simp
    qed
  qed
qed

lemma robot_attempt_calls_nonempty:
  "calls (snd (axios_attempt (priv_axiosInstance (new_Robot ra opts)) env i cfg)) \<noteq> []"
  by (subst robot_attempt) (simp split: sum.splits)

section \<open>\<^verbatim>\<open>request\<close> on a constructed object\<close>

lemma request_disabled:
  "\<not> truthy_string (priv_url r) \<Longrightarrow> request r env d = (NotSent, [])"
  by (simp add: request_def truthy_string_def split: option.splits)

lemma request_enabled:
  "priv_url r = Some u \<Longrightarrow> u \<noteq> [] \<Longrightarrow>
   request r env d =
     (case fst (axios_attempt (priv_axiosInstance r) env 0 (request_config r env u d)) of
        Inl err \<Rightarrow> Rejected (AxiosErr err)
      | Inr resp \<Rightarrow> then_handler resp,
      snd (axios_attempt (priv_axiosInstance r) env 0 (request_config r env u d)))"
  by (simp add: request_def axios_request_def Let_def)

lemma request_calls:
  assumes "priv_url (new_Robot ra opts) = Some u" and "u \<noteq> []"
  shows "calls (snd (request (new_Robot ra opts) env d)) =
     map (\<lambda>j. request_interceptor (now_interceptor env j) (request_config (new_Robot ra opts) env u d))
       [0 ..< length (calls (snd (request (new_Robot ra opts) env d)))]"
  using robot_attempt_calls [of ra opts env 0 "request_config (new_Robot ra opts) env u d"]
  by (simp add: request_enabled [OF assms])

lemma request_calls_timeout:
  "c \<in> set (calls (snd (request (new_Robot ra opts) env d))) \<Longrightarrow>
   cfg_timeout c = priv_timeout (new_Robot ra opts)"
proof (cases "truthy_string (priv_url (new_Robot ra opts))")
  case False
  then show "c \<in> set (calls (snd (request (new_Robot ra opts) env d))) \<Longrightarrow> ?thesis"
    by (simp add: request_disabled)
next
  case True
  then obtain u where u: "priv_url (new_Robot ra opts) = Some u" "u \<noteq> []"
    by (auto simp: truthy_string_def split: option.splits)
  assume "c \<in> set (calls (snd (request (new_Robot ra opts) env d)))"
  then have "c \<in> set (map (\<lambda>j. request_interceptor (now_interceptor env j)
                 (request_config (new_Robot ra opts) env u d))
       [0 ..< length (calls (snd (request (new_Robot ra opts) env d)))])"
    using request_calls [OF u, of env d] by simp
  then show ?thesis
    by (auto simp: request_interceptor_fields request_config_def)
qed

lemma request_calls_url:
  assumes "priv_url (new_Robot ra opts) = Some u" and "u \<noteq> []"
    and "c \<in> set (calls (snd (request (new_Robot ra opts) env d)))"
  shows "cfg_url c = u"
proof -
  have "c \<in> set (map (\<lambda>j. request_interceptor (now_interceptor env j)
                 (request_config (new_Robot ra opts) env u d))
       [0 ..< length (calls (snd (request (new_Robot ra opts) env d)))])"
    using request_calls [OF assms(1,2), of env d] assms(3) by simp
  then show ?thesis
    by (auto simp: request_interceptor_fields request_config_def)
qed

lemma request_calls_nonempty:
  "priv_url (new_Robot ra opts) = Some u \<Longrightarrow> u \<noteq> [] \<Longrightarrow>
   calls (snd (request (new_Robot ra opts) env d)) \<noteq> []"
  by (simp add: request_enabled robot_attempt_calls_nonempty)


section \<open>Claims about the configuration\<close>

text \<open>
  C5 (as amended). If \<^verbatim>\<open>retries\<close> is supplied with an integer \<open>n \<ge> 1\<close>, the retry budget (the
  field and the option handed to the retry plugin) equals \<open>n\<close>; if it is absent or \<open>0\<close>, the
  budget is 10. If \<^verbatim>\<open>timeout\<close> is supplied with an integer \<open>t > 0\<close>, the timeout equals \<open>t\<close>,
  and every request of every call carries it; if it is absent or \<open>0\<close> it is 3000. No sequence of
  method calls changes either value.
\<close>

theorem C5_retries_and_timeout:
  "(\<forall>n. retries opts = Some n \<and> n \<ge> 1 \<longrightarrow>
        priv_retries (new_Robot ra opts) = n \<and>
        opt_retries (inst_retry (priv_axiosInstance (new_Robot ra opts))) = n) \<and>
   (retries opts = None \<or> retries opts = Some 0 \<longrightarrow>
        priv_retries (new_Robot ra opts) = 10 \<and>
        opt_retries (inst_retry (priv_axiosInstance (new_Robot ra opts))) = 10) \<and>
   (\<forall>t. timeout opts = Some t \<and> t > 0 \<longrightarrow> priv_timeout (new_Robot ra opts) = t) \<and>
   (timeout opts = None \<or> timeout opts = Some 0 \<longrightarrow> priv_timeout (new_Robot ra opts) = 3000) \<and>
   (\<forall>c \<in> set (calls (snd (request (new_Robot ra opts) env d))).
        cfg_timeout c = priv_timeout (new_Robot ra opts)) \<and>
   priv_retries (fst (run_calls (new_Robot ra opts) cs)) = priv_retries (new_Robot ra opts) \<and>
   priv_timeout (fst (run_calls (new_Robot ra opts) cs)) = priv_timeout (new_Robot ra opts)"
proof -
  have "\<forall>c \<in> set (calls (snd (request (new_Robot ra opts) env d))).
          cfg_timeout c = priv_timeout (new_Robot ra opts)"
    using request_calls_timeout by blast
  then show ?thesis
    by (auto simp: new_Robot_instance new_Robot_retries new_Robot_timeout or_default_def
        run_calls_same_robot)
qed

theorem C5_witness:
  "priv_retries (new_Robot (\<lambda>c. True)
      \<lparr> url = None, accessToken = Some ''token'', secret = None,
        timeout = Some 5000, retries = Some 3 \<rparr>) = 3 \<and>
   priv_timeout (new_Robot (\<lambda>c. True)
      \<lparr> url = None, accessToken = Some ''token'', secret = None,
        timeout = Some 5000, retries = Some 3 \<rparr>) = 5000 \<and>
   priv_retries (new_Robot (\<lambda>c. True)
      \<lparr> url = None, accessToken = Some ''token'', secret = None,
        timeout = None, retries = None \<rparr>) = 10 \<and>
   priv_timeout (new_Robot (\<lambda>c. True)
      \<lparr> url = None, accessToken = Some ''token'', secret = None,
        timeout = None, retries = None \<rparr>) = 3000"
  using
    C5_retries_and_timeout [of "\<lparr> url = None, accessToken = Some ''token'', secret = None,
        timeout = Some 5000, retries = Some 3 \<rparr>" "\<lambda>c. True" undefined JNull "[]"]
    C5_retries_and_timeout [of "\<lparr> url = None, accessToken = Some ''token'', secret = None,
        timeout = None, retries = None \<rparr>" "\<lambda>c. True" undefined JNull "[]"]
  by simp

text \<open>The claim as the spec states it fails for \<^verbatim>\<open>retries: 0\<close>: \<^verbatim>\<open>opts.retries || 10\<close> takes
  \<open>0\<close> for absent, and the budget is 10.\<close>

theorem C5_counterexample:
  "retries \<lparr> url = Some ''https://example.com/hook'', accessToken = None, secret = None,
             timeout = None, retries = Some 0 \<rparr> = Some 0 \<and>
   priv_retries (new_Robot (\<lambda>c. True)
      \<lparr> url = Some ''https://example.com/hook'', accessToken = None, secret = None,
        timeout = None, retries = Some 0 \<rparr>) = 10 \<and>
   opt_retries (inst_retry (priv_axiosInstance (new_Robot (\<lambda>c. True)
      \<lparr> url = Some ''https://example.com/hook'', accessToken = None, secret = None,
        timeout = None, retries = Some 0 \<rparr>))) = 10"
  by (simp add: new_Robot_def or_default_def)

text \<open>
  C7 (as amended). For every object constructed with an \<^verbatim>\<open>accessToken\<close> that is present and
  not the empty string, the URL is
  \<^verbatim>\<open>https://oapi.dingtalk.com/robot/send?access_token=<accessToken>\<close> whatever \<^verbatim>\<open>url\<close> was
  supplied with it; it stays so after any sequence of method calls, and every request of
  every call is sent to it.
\<close>

theorem C7_access_token_url:
  assumes "accessToken opts = Some token" and "token \<noteq> []"
  shows
    "priv_url (new_Robot ra opts) =
       Some (''https://oapi.dingtalk.com/robot/send?access_token='' @ token) \<and>
     priv_url (fst (run_calls (new_Robot ra opts) cs)) =
       Some (''https://oapi.dingtalk.com/robot/send?access_token='' @ token) \<and>
     (\<forall>c \<in> set (calls (snd (request (new_Robot ra opts) env d))).
        cfg_url c = ''https://oapi.dingtalk.com/robot/send?access_token='' @ token)"
proof -
  have u: "priv_url (new_Robot ra opts) =
       Some (''https://oapi.dingtalk.com/robot/send?access_token='' @ token)"
    using assms by (simp add: new_Robot_def Let_def)
  have "\<forall>c \<in> set (calls (snd (request (new_Robot ra opts) env d))).
        cfg_url c = ''https://oapi.dingtalk.com/robot/send?access_token='' @ token"
    using request_calls_url [OF u] by blast
  with u show ?thesis by (simp add: run_calls_same_robot)
qed

theorem C7_witness:
  "priv_url (new_Robot (\<lambda>c. True)
      \<lparr> url = Some ''https://example.com/hook'', accessToken = Some ''abc'', secret = None,
        timeout = None, retries = None \<rparr>) =
     Some ''https://oapi.dingtalk.com/robot/send?access_token=abc''"
  using C7_access_token_url [of "\<lparr> url = Some ''https://example.com/hook'',
      accessToken = Some ''abc'', secret = None, timeout = None, retries = None \<rparr>"
      "''abc''" "\<lambda>c. True" "[]" undefined JNull]
  by simp

text \<open>The claim as the spec states it fails for an \<^verbatim>\<open>accessToken\<close> that is the empty string:
  line 74 tests it for truth, and the supplied \<^verbatim>\<open>url\<close> stays.\<close>

theorem C7_counterexample:
  "accessToken \<lparr> url = Some ''https://example.com/hook'', accessToken = Some [], secret = None,
                timeout = None, retries = None \<rparr> = Some [] \<and>
   priv_url (new_Robot (\<lambda>c. True)
      \<lparr> url = Some ''https://example.com/hook'', accessToken = Some [], secret = None,
        timeout = None, retries = None \<rparr>) = Some ''https://example.com/hook'' \<and>
   priv_url (new_Robot (\<lambda>c. True)
      \<lparr> url = Some ''https://example.com/hook'', accessToken = Some [], secret = None,
        timeout = None, retries = None \<rparr>) \<noteq>
     Some (''https://oapi.dingtalk.com/robot/send?access_token='' @ [])"
  by (simp add: new_Robot_def Let_def)

section \<open>Claims about the disabled state and the payloads\<close>



text \<open>
  C9. The shorthand and the structured form of \<^verbatim>\<open>text\<close> and of \<^verbatim>\<open>markdown\<close> build the same
  payload, hence the same serialized body and the same call: \<^verbatim>\<open>text(c)\<close> and
  \<^verbatim>\<open>text({content: c})\<close> for every \<open>c\<close>, \<^verbatim>\<open>markdown(t, b)\<close> and \<^verbatim>\<open>markdown({title: t, text: b})\<close>
  for every \<open>t\<close> and \<open>b\<close>. The bodies of \<^verbatim>\<open>text("hello")\<close> and \<^verbatim>\<open>markdown("T", "B")\<close> are
  written out.
\<close>

theorem C9_shorthand_equals_structured:
  \<open>JSON_stringify (text_payload (Inl c)) =
     JSON_stringify (text_payload (Inr \<lparr> content = c, text_at = None \<rparr>)) \<and>
   robot_text r env (Inl c) = robot_text r env (Inr \<lparr> content = c, text_at = None \<rparr>) \<and>
   JSON_stringify (markdown_payload (Inl t) (Some b)) =
     JSON_stringify (markdown_payload
        (Inr \<lparr> markdown_title = t, markdown_text = b, markdown_at = None \<rparr>) None) \<and>
   markdown r env (Inl t) (Some b) =
     markdown r env (Inr \<lparr> markdown_title = t, markdown_text = b, markdown_at = None \<rparr>) None \<and>
   JSON_stringify (text_payload (Inl ''hello'')) =
     Some ''{"msgtype":"text","text":{"content":"hello"}}'' \<and>
   JSON_stringify (text_payload (Inr \<lparr> content = ''hello'', text_at = None \<rparr>)) =
     Some ''{"msgtype":"text","text":{"content":"hello"}}'' \<and>
   JSON_stringify (markdown_payload (Inl ''T'') (Some ''B'')) =
     Some ''{"msgtype":"markdown","markdown":{"title":"T","text":"B"}}'' \<and>
   JSON_stringify (markdown_payload
        (Inr \<lparr> markdown_title = ''T'', markdown_text = ''B'', markdown_at = None \<rparr>) None) =
     Some ''{"msgtype":"markdown","markdown":{"title":"T","text":"B"}}''\<close>
  by (simp add: text_payload_def markdown_payload_def robot_text_def markdown_def at_value_def
      JSON_stringify_def quote_def escape_char_def)




section \<open>The signature\<close>

lemma b64_in_alphabet: "b64 n \<in> set base64_alphabet"
  unfolding b64_def by (rule nth_mem) (simp add: base64_alphabet_def)

lemma base64_chars:
  "c \<in> set (base64 bs) \<Longrightarrow> c \<in> set base64_alphabet \<or> c = CHR ''=''"
  by (induction bs rule: base64.induct) (auto simp: b64_in_alphabet)

lemma hex_upper_is_hex: "is_hex (hex_upper n)"
proof -
  have "hex_upper n \<in> set ''0123456789ABCDEF''"
    unfolding hex_upper_def by (rule nth_mem) simp
  then show ?thesis
    by (auto simp: is_hex_def)
qed

lemma url_safe_escape:
  "url_safe (CHR ''%'' # hex_upper m # hex_upper n # rest) = url_safe rest"
  by (simp add: hex_upper_is_hex)

lemma url_safe_encode_char:
  assumes "c \<in> set base64_alphabet \<or> c = CHR ''=''"
  shows "url_safe (encode_char c @ rest) = url_safe rest"
proof (cases "uri_unescaped c")
  case True
  with assms have "unreserved c \<and> c \<noteq> CHR ''%''"
    by (auto simp: base64_alphabet_def uri_unescaped_def unreserved_def)
  with True show ?thesis
    by (simp add: encode_char_def)
next
  case False
  then show ?thesis
    by (simp add: encode_char_def url_safe_escape del: url_safe.simps)
qed

lemma url_safe_encodeURIComponent:
  "\<forall>c \<in> set s. c \<in> set base64_alphabet \<or> c = CHR ''='' \<Longrightarrow> url_safe (encodeURIComponent s)"
  by (induction s) (simp_all add: encodeURIComponent_def url_safe_encode_char del: url_safe.simps(2))

lemma sign_url_safe: "url_safe (sign k t)"
  unfolding sign_def
  by (rule url_safe_encodeURIComponent) (blast dest: base64_chars)

subsection \<open>Known answers\<close>

text \<open>
  Rules that compute SHA-256 on bytes that are given: each sum is reduced modulo \<open>2\<^sup>3\<^sup>2\<close> as
  soon as it is formed.
\<close>

lemma rotr_eval: "rotr n w = take_bit 32 (drop_bit n w OR push_bit (32 - n) w)"
  by (simp add: rotr_def take_bit_word_eq_self)

lemma schedule_Suc:
  "schedule (Suc k) ws =
     schedule k
       (ws @ [take_bit 32 (small_sigma1 (ws ! (length ws - 2)) + ws ! (length ws - 7)
              + small_sigma0 (ws ! (length ws - 15)) + ws ! (length ws - 16))])"
  by (simp add: Let_def take_bit_word_eq_self)

lemma schedule_num:
  "schedule (numeral k) ws =
     schedule (pred_numeral k)
       (ws @ [take_bit 32 (small_sigma1 (ws ! (length ws - 2)) + ws ! (length ws - 7)
              + small_sigma0 (ws ! (length ws - 15)) + ws ! (length ws - 16))])"
  by (simp add: numeral_eq_Suc Let_def take_bit_word_eq_self)

lemma sha_round_eval:
  "sha_round (a, b, c, d, e, f, g, h) (k, w) =
     (take_bit 32 (h + big_sigma1 e + ch e f g + k + w + (big_sigma0 a + maj a b c)),
      a, b, c, take_bit 32 (d + (h + big_sigma1 e + ch e f g + k + w)), e, f, g)"
  by (simp add: sha_round_def Let_def take_bit_word_eq_self)

lemma replicate_num: "replicate (numeral k) x = x # replicate (pred_numeral k) x"
  by (simp add: numeral_eq_Suc)

lemma upt8: "[0..<8] = [0, 1, 2, 3, 4, 5, 6, 7::nat]"
  by (simp add: upt_rec)

lemmas sha_eval =
  sha256_K_def schedule_num schedule_Suc sha_round_eval
  big_sigma0_def big_sigma1_def small_sigma0_def small_sigma1_def rotr_eval ch_def maj_def

lemma length_bytes_eval:
  "length_bytes n =
     map (\<lambda>i. take_bit 8 (ucast (drop_bit (8 * (7 - i)) (word_of_nat n :: 64 word)))) [0..<8]"
  by (simp add: length_bytes_def take_bit_word_eq_self)

lemmas sha_blocks =
  sha256_def sha256_pad_def length_bytes_eval replicate_num upt8 chunks.simps sha256_H0_def
  word_bytes_def

lemma hmac_sha256_short_key:
  "length key \<le> 64 \<Longrightarrow>
   hmac_sha256 key msg =
     sha256 (map (\<lambda>b. b XOR 0x5c) (key @ replicate (64 - length key) 0)
             @ sha256 (map (\<lambda>b. b XOR 0x36) (key @ replicate (64 - length key) 0) @ msg))"
  by (simp add: hmac_sha256_def Let_def)

lemma sha_rounds_abc:
  "foldl sha_round
     (1779033703, 3144134277, 1013904242, 2773480762, 1359893119, 2600822924, 528734635, 1541459225)
     (zip sha256_K (schedule 48 (be_words
       [97, 98, 99, 128, 0, 0, 0, 0, 0, 0, 0, 0, 0, 0, 0, 0, 0, 0, 0, 0, 0, 0, 0, 0, 0, 0,
       0, 0, 0, 0, 0, 0, 0, 0, 0, 0, 0, 0, 0, 0, 0, 0, 0, 0, 0, 0, 0, 0, 0, 0, 0, 0, 0, 0,
       0, 0, 0, 0, 0, 0, 0, 0, 0, 24]))) =
     (1349398616, 3550093669, 80891244, 3093179625, 1593118500, 4212265488, 2492278198, 2518632596)"
  by (simp add: sha_eval del: schedule.simps(2))

lemma sha_compress_abc:
  "compress
     [1779033703, 3144134277, 1013904242, 2773480762, 1359893119, 2600822924, 528734635,
     1541459225]
     [97, 98, 99, 128, 0, 0, 0, 0, 0, 0, 0, 0, 0, 0, 0, 0, 0, 0, 0, 0, 0, 0, 0, 0, 0, 0, 0,
     0, 0, 0, 0, 0, 0, 0, 0, 0, 0, 0, 0, 0, 0, 0, 0, 0, 0, 0, 0, 0, 0, 0, 0, 0, 0, 0, 0, 0,
     0, 0, 0, 0, 0, 0, 0, 24] =
     [3128432319, 2399260650, 1094795486, 1571693091, 2953011619, 2518121116, 3021012833,
     4060091821]"
  by (simp only: compress_def list.case sha_rounds_abc prod.case) simp

text \<open>The digest of \<^verbatim>\<open>abc\<close>, the first example of FIPS 180-4:
  \<^verbatim>\<open>ba7816bf 8f01cfea 414140de 5dae2223 b00361a3 96177a9c b410ff61 f20015ad\<close>.\<close>

lemma sha256_abc:
  "sha256 (utf8 ''abc'') =
     [0xba, 0x78, 0x16, 0xbf, 0x8f, 0x01, 0xcf, 0xea, 0x41, 0x41, 0x40, 0xde, 0x5d, 0xae, 0x22, 0x23,
      0xb0, 0x03, 0x61, 0xa3, 0x96, 0x17, 0x7a, 0x9c, 0xb4, 0x10, 0xff, 0x61, 0xf2, 0x00, 0x15, 0xad]"
  by (simp add: utf8_def sha_blocks sha_compress_abc)

text \<open>
  The signature of the timestamp \<^verbatim>\<open>1700000000002\<close> under the secret \<^verbatim>\<open>SEC0123456789abcdef\<close>. The key is
  shorter than a block, so the inner hash runs over the key padded to 64 bytes and combined
  with \<open>0x36\<close>, followed by the message, and the outer hash over the padded key combined
  with \<open>0x5c\<close>, followed by the inner digest: two blocks each. The digest is that of
  \<^verbatim>\<open>createHmac('sha256', key).update(msg).digest()\<close>, in base64
  \<^verbatim>\<open>VGvd0brDJp/nMZtR+XnA3yBIlhowT+TwkRPua0q1/jg=\<close>.
\<close>

lemma sha_rounds_inner_1:
  "foldl sha_round
     (1779033703, 3144134277, 1013904242, 2773480762, 1359893119, 2600822924, 528734635, 1541459225)
     (zip sha256_K (schedule 48 (be_words
       [101, 115, 117, 6, 7, 4, 5, 2, 3, 0, 1, 14, 15, 87, 84, 85, 82, 83, 80, 54, 54, 54,
       54, 54, 54, 54, 54, 54, 54, 54, 54, 54, 54, 54, 54, 54, 54, 54, 54, 54, 54, 54, 54,
       54, 54, 54, 54, 54, 54, 54, 54, 54, 54, 54, 54, 54, 54, 54, 54, 54, 54, 54, 54, 54]))) =
     (4285128412, 2534850915, 698569789, 1285945562, 2535307381, 1493173893, 110863536, 2157288686)"
  by (simp add: sha_eval del: schedule.simps(2))

lemma sha_compress_inner_1:
  "compress
     [1779033703, 3144134277, 1013904242, 2773480762, 1359893119, 2600822924, 528734635,
     1541459225]
     [101, 115, 117, 6, 7, 4, 5, 2, 3, 0, 1, 14, 15, 87, 84, 85, 82, 83, 80, 54, 54, 54,
     54, 54, 54, 54, 54, 54, 54, 54, 54, 54, 54, 54, 54, 54, 54, 54, 54, 54, 54, 54, 54,
     54, 54, 54, 54, 54, 54, 54, 54, 54, 54, 54, 54, 54, 54, 54, 54, 54, 54, 54, 54, 54] =
     [1769194819, 1384017896, 1712474031, 4059426324, 3895200500, 4093996817, 639598171,
     3698747911]"
  by (simp only: compress_def list.case sha_rounds_inner_1 prod.case) simp

lemma sha_rounds_inner_2:
  "foldl sha_round
     (1769194819, 1384017896, 1712474031, 4059426324, 3895200500, 4093996817, 639598171, 3698747911)
     (zip sha256_K (schedule 48 (be_words
       [49, 55, 48, 48, 48, 48, 48, 48, 48, 48, 48, 48, 50, 10, 83, 69, 67, 48, 49, 50, 51,
       52, 53, 54, 55, 56, 57, 97, 98, 99, 100, 101, 102, 128, 0, 0, 0, 0, 0, 0, 0, 0, 0,
       0, 0, 0, 0, 0, 0, 0, 0, 0, 0, 0, 0, 0, 0, 0, 0, 0, 0, 0, 3, 8]))) =
     (2781159819, 2211191568, 4118089238, 568034784, 588510627, 2901072274, 2738099776, 2829414813)"
  by (simp add: sha_eval del: schedule.simps(2))

lemma sha_compress_inner_2:
  "compress
     [1769194819, 1384017896, 1712474031, 4059426324, 3895200500, 4093996817, 639598171,
     3698747911]
     [49, 55, 48, 48, 48, 48, 48, 48, 48, 48, 48, 48, 50, 10, 83, 69, 67, 48, 49, 50, 51,
     52, 53, 54, 55, 56, 57, 97, 98, 99, 100, 101, 102, 128, 0, 0, 0, 0, 0, 0, 0, 0, 0, 0,
     0, 0, 0, 0, 0, 0, 0, 0, 0, 0, 0, 0, 0, 0, 0, 0, 0, 0, 3, 8] =
     [255387342, 3595209464, 1535595973, 332493812, 188743831, 2700101795, 3377697947,
     2233195428]"
  by (simp only: compress_def list.case sha_rounds_inner_2 prod.case) simp

lemma sha_rounds_outer_1:
  "foldl sha_round
     (1779033703, 3144134277, 1013904242, 2773480762, 1359893119, 2600822924, 528734635, 1541459225)
     (zip sha256_K (schedule 48 (be_words
       [15, 25, 31, 108, 109, 110, 111, 104, 105, 106, 107, 100, 101, 61, 62, 63, 56, 57,
       58, 92, 92, 92, 92, 92, 92, 92, 92, 92, 92, 92, 92, 92, 92, 92, 92, 92, 92, 92, 92,
       92, 92, 92, 92, 92, 92, 92, 92, 92, 92, 92, 92, 92, 92, 92, 92, 92, 92, 92, 92, 92,
       92, 92, 92, 92]))) =
     (3779060300, 2787130486, 2830077123, 621131892, 1048285604, 1151336525, 1667748851, 2204271336)"
  by (simp add: sha_eval del: schedule.simps(2))

lemma sha_compress_outer_1:
  "compress
     [1779033703, 3144134277, 1013904242, 2773480762, 1359893119, 2600822924, 528734635,
     1541459225]
     [15, 25, 31, 108, 109, 110, 111, 104, 105, 106, 107, 100, 101, 61, 62, 63, 56, 57, 58,
     92, 92, 92, 92, 92, 92, 92, 92, 92, 92, 92, 92, 92, 92, 92, 92, 92, 92, 92, 92, 92,
     92, 92, 92, 92, 92, 92, 92, 92, 92, 92, 92, 92, 92, 92, 92, 92, 92, 92, 92, 92, 92,
     92, 92, 92] =
     [1263126707, 1636297467, 3843981365, 3394612654, 2408178723, 3752159449, 2196483486,
     3745730561]"
  by (simp only: compress_def list.case sha_rounds_outer_1 prod.case) simp

lemma sha_rounds_outer_2:
  "foldl sha_round
     (1263126707, 1636297467, 3843981365, 3394612654, 2408178723, 3752159449, 2196483486, 3745730561)
     (zip sha256_K (schedule 48 (be_words
       [15, 56, 230, 206, 214, 74, 138, 248, 91, 135, 85, 197, 19, 209, 115, 244, 11, 64,
       0, 151, 160, 240, 72, 163, 201, 83, 148, 155, 133, 27, 219, 164, 128, 0, 0, 0, 0, 0,
       0, 0, 0, 0, 0, 0, 0, 0, 0, 0, 0, 0, 0, 0, 0, 0, 0, 0, 0, 0, 0, 0, 0, 0, 3, 0]))) =
     (153228574, 1497054116, 34806556, 790893361, 2428416503, 1353350167, 237519053, 1802677815)"
  by (simp add: sha_eval del: schedule.simps(2))

lemma sha_compress_outer_2:
  "compress
     [1263126707, 1636297467, 3843981365, 3394612654, 2408178723, 3752159449, 2196483486,
     3745730561]
     [15, 56, 230, 206, 214, 74, 138, 248, 91, 135, 85, 197, 19, 209, 115, 244, 11, 64, 0,
     151, 160, 240, 72, 163, 201, 83, 148, 155, 133, 27, 219, 164, 128, 0, 0, 0, 0, 0, 0,
     0, 0, 0, 0, 0, 0, 0, 0, 0, 0, 0, 0, 0, 0, 0, 0, 0, 0, 0, 0, 0, 0, 0, 3, 0] =
     [1416355281, 3133351583, 3878787921, 4185506015, 541627930, 810542320, 2434002539,
     1253441080]"
  by (simp only: compress_def list.case sha_rounds_outer_2 prod.case) simp

lemma sha256_inner:
  "sha256
     [101, 115, 117, 6, 7, 4, 5, 2, 3, 0, 1, 14, 15, 87, 84, 85, 82, 83, 80, 54, 54, 54,
     54, 54, 54, 54, 54, 54, 54, 54, 54, 54, 54, 54, 54, 54, 54, 54, 54, 54, 54, 54, 54,
     54, 54, 54, 54, 54, 54, 54, 54, 54, 54, 54, 54, 54, 54, 54, 54, 54, 54, 54, 54, 54,
     49, 55, 48, 48, 48, 48, 48, 48, 48, 48, 48, 48, 50, 10, 83, 69, 67, 48, 49, 50, 51,
     52, 53, 54, 55, 56, 57, 97, 98, 99, 100, 101, 102] =
     [15, 56, 230, 206, 214, 74, 138, 248, 91, 135, 85, 197, 19, 209, 115, 244, 11, 64, 0,
     151, 160, 240, 72, 163, 201, 83, 148, 155, 133, 27, 219, 164]"
  by (simp add: sha_blocks sha_compress_inner_1 sha_compress_inner_2)

lemma sha256_outer:
  "sha256
     [15, 25, 31, 108, 109, 110, 111, 104, 105, 106, 107, 100, 101, 61, 62, 63, 56, 57, 58,
     92, 92, 92, 92, 92, 92, 92, 92, 92, 92, 92, 92, 92, 92, 92, 92, 92, 92, 92, 92, 92,
     92, 92, 92, 92, 92, 92, 92, 92, 92, 92, 92, 92, 92, 92, 92, 92, 92, 92, 92, 92, 92,
     92, 92, 92, 15, 56, 230, 206, 214, 74, 138, 248, 91, 135, 85, 197, 19, 209, 115, 244,
     11, 64, 0, 151, 160, 240, 72, 163, 201, 83, 148, 155, 133, 27, 219, 164] =
     [84, 107, 221, 209, 186, 195, 38, 159, 231, 49, 155, 81, 249, 121, 192, 223, 32, 72,
     150, 26, 48, 79, 228, 240, 145, 19, 238, 107, 74, 181, 254, 56]"
  by (simp add: sha_blocks sha_compress_outer_1 sha_compress_outer_2)

lemma hmac_sha256_known_answer:
  "hmac_sha256 (utf8 ''SEC0123456789abcdef'')
     (utf8 (''1700000000002'' @ [CHR 0x0A] @ ''SEC0123456789abcdef'')) =
     [84, 107, 221, 209, 186, 195, 38, 159, 231, 49, 155, 81, 249, 121, 192, 223, 32, 72,
     150, 26, 48, 79, 228, 240, 145, 19, 238, 107, 74, 181, 254, 56]"
  by (simp add: hmac_sha256_short_key utf8_def replicate_num sha256_inner sha256_outer)

lemma sign_known_answer:
  "sign ''SEC0123456789abcdef'' 1700000000002 =
     ''VGvd0brDJp%2FnMZtR%2BXnA3yBIlhowT%2BTwkRPua0q1%2Fjg%3D''"
proof -
  have "number_to_string 1700000000002 = ''1700000000002''"
    by (simp add: number_to_string_def digits.simps)
  then show ?thesis
    by (simp only: sign_def hmac_sha256_known_answer)
       (simp add: b64_def base64_alphabet_def encodeURIComponent_def encode_char_def
          uri_unescaped_def hex_upper_def)
qed

section \<open>The query parameters of the requests\<close>

lemma request_call_nth:
  assumes "priv_url (new_Robot ra opts) = Some u" and "u \<noteq> []"
    and "j < length (calls (snd (request (new_Robot ra opts) env d)))"
  shows "calls (snd (request (new_Robot ra opts) env d)) ! j =
     request_interceptor (now_interceptor env j) (request_config (new_Robot ra opts) env u d)"
proof -
  let ?f = "\<lambda>j. request_interceptor (now_interceptor env j)
               (request_config (new_Robot ra opts) env u d)"
  let ?n = "length (calls (snd (request (new_Robot ra opts) env d)))"
  have "calls (snd (request (new_Robot ra opts) env d)) ! j = map ?f [0 ..< ?n] ! j"
    using request_calls [OF assms(1,2), of env d] by simp
  also have "\<dots> = ?f j"
    using assms(3) by simp
  finally show ?thesis .
qed

lemma request_params_new_Robot:
  "request_params (new_Robot ra opts) env =
     (case secret opts of
        None \<Rightarrow> []
      | Some k \<Rightarrow>
          if k = [] then []
          else [(''timestamp'', JNum (now_request env)), (''sign'', JStr (sign k (now_request env)))])"
  by (simp add: request_params_def new_Robot_def Let_def split: option.splits)

lemma request_call_params:
  assumes "priv_url (new_Robot ra opts) = Some u" and "u \<noteq> []"
    and "j < length (calls (snd (request (new_Robot ra opts) env d)))"
  shows "cfg_params (calls (snd (request (new_Robot ra opts) env d)) ! j) =
     set_prop (request_params (new_Robot ra opts) env) ''_'' (JNum (now_interceptor env j))"
  by (simp add: request_call_nth [OF assms] request_interceptor_fields request_config_def)

lemma request_call_mem_params:
  assumes "c \<in> set (calls (snd (request (new_Robot ra opts) env d)))"
  shows "\<exists>j. cfg_params c =
     set_prop (request_params (new_Robot ra opts) env) ''_'' (JNum (now_interceptor env j))"
proof (cases "truthy_string (priv_url (new_Robot ra opts))")
  case False
  with assms show ?thesis by (simp add: request_disabled)
next
  case True
  then obtain u where u: "priv_url (new_Robot ra opts) = Some u" "u \<noteq> []"
    by (auto simp: truthy_string_def split: option.splits)
  from assms obtain j where "j < length (calls (snd (request (new_Robot ra opts) env d)))"
    and "c = calls (snd (request (new_Robot ra opts) env d)) ! j"
    by (auto simp: in_set_conv_nth)
  then show ?thesis
    using request_call_params [OF u, of j env d] by blast
qed

text \<open>
  C6 (as amended). Every request put on the network carries the query parameter \<^verbatim>\<open>_\<close>, set
  to the reading of the clock that the interceptor takes for that attempt. When the secret
  is present and not the empty string, the parameters are \<^verbatim>\<open>timestamp\<close>, the reading of the
  clock taken when \<^verbatim>\<open>request\<close> builds them (a reading of its own, not that of \<^verbatim>\<open>_\<close>), \<^verbatim>\<open>sign\<close>,
  the signature of that timestamp under the secret, and \<^verbatim>\<open>_\<close>. When the secret is absent or
  the empty string, \<^verbatim>\<open>_\<close> is the only parameter.
\<close>

theorem C6_query_parameters:
  assumes "priv_url (new_Robot ra opts) = Some u" and "u \<noteq> []"
  shows
    "calls (snd (request (new_Robot ra opts) env d)) \<noteq> [] \<and>
     (\<forall>j < length (calls (snd (request (new_Robot ra opts) env d))).
        map_of (cfg_params (calls (snd (request (new_Robot ra opts) env d)) ! j)) ''_'' =
          Some (JNum (now_interceptor env j)) \<and>
        (\<forall>k. secret opts = Some k \<and> k \<noteq> [] \<longrightarrow>
           cfg_params (calls (snd (request (new_Robot ra opts) env d)) ! j) =
             [(''timestamp'', JNum (now_request env)),
              (''sign'', JStr (sign k (now_request env))),
              (''_'', JNum (now_interceptor env j))]) \<and>
        (secret opts = None \<or> secret opts = Some [] \<longrightarrow>
           cfg_params (calls (snd (request (new_Robot ra opts) env d)) ! j) =
             [(''_'', JNum (now_interceptor env j))]))"
  using request_calls_nonempty [OF assms, of env d]
  by (auto simp: request_call_params [OF assms] request_params_new_Robot map_of_set_prop_same)

theorem C6_witness:
  "cfg_params (calls (snd (request
      (new_Robot (\<lambda>c. True)
         \<lparr> url = Some ''https://example.com/hook'', accessToken = None, secret = Some ''SEC'',
           timeout = None, retries = None \<rparr>)
      \<lparr> now_request = 1000, now_interceptor = (\<lambda>i. 1001 + 1000 * int i),
        transport = (\<lambda>i c. Responded \<lparr> status = 200, data = JObj [(''errcode'', JNum 0)] \<rparr>),
        elapsed = (\<lambda>i. 1) \<rparr>
      (text_payload (Inl ''hello'')))) ! 0) =
     [(''timestamp'', JNum 1000), (''sign'', JStr (sign ''SEC'' 1000)), (''_'', JNum 1001)]"
  using C6_query_parameters [of "\<lambda>c. True"
      "\<lparr> url = Some ''https://example.com/hook'', accessToken = None, secret = Some ''SEC'',
        timeout = None, retries = None \<rparr>"
      "''https://example.com/hook''"
      "\<lparr> now_request = 1000, now_interceptor = (\<lambda>i. 1001 + 1000 * int i),
        transport = (\<lambda>i c. Responded \<lparr> status = 200, data = JObj [(''errcode'', JNum 0)] \<rparr>),
        elapsed = (\<lambda>i. 1) \<rparr>"
      "text_payload (Inl ''hello'')"]
  by (simp add: new_Robot_def Let_def)

text \<open>
  The claim as the spec states it fails in two places. With the empty string for secret,
  line 133 takes the secret for absent: the first request has neither \<^verbatim>\<open>timestamp\<close> nor
  \<^verbatim>\<open>sign\<close>. With a secret, \<^verbatim>\<open>timestamp\<close> and \<^verbatim>\<open>_\<close> are two readings of the clock (lines 134
  and 92): when the clock moves between them, they differ.
\<close>

theorem C6_counterexample:
  "map_of (cfg_params (calls (snd (request
      (new_Robot (\<lambda>c. True)
         \<lparr> url = Some ''https://example.com/hook'', accessToken = None, secret = Some [],
           timeout = None, retries = None \<rparr>)
      \<lparr> now_request = 1000, now_interceptor = (\<lambda>i. 1001 + 1000 * int i),
        transport = (\<lambda>i c. Responded \<lparr> status = 200, data = JObj [(''errcode'', JNum 0)] \<rparr>),
        elapsed = (\<lambda>i. 1) \<rparr>
      (text_payload (Inl ''hello'')))) ! 0)) ''sign'' = None \<and>
   map_of (cfg_params (calls (snd (request
      (new_Robot (\<lambda>c. True)
         \<lparr> url = Some ''https://example.com/hook'', accessToken = None, secret = Some [],
           timeout = None, retries = None \<rparr>)
      \<lparr> now_request = 1000, now_interceptor = (\<lambda>i. 1001 + 1000 * int i),
        transport = (\<lambda>i c. Responded \<lparr> status = 200, data = JObj [(''errcode'', JNum 0)] \<rparr>),
        elapsed = (\<lambda>i. 1) \<rparr>
      (text_payload (Inl ''hello'')))) ! 0)) ''timestamp'' = None \<and>
   map_of (cfg_params (calls (snd (request
      (new_Robot (\<lambda>c. True)
         \<lparr> url = Some ''https://example.com/hook'', accessToken = None, secret = Some ''SEC'',
           timeout = None, retries = None \<rparr>)
      \<lparr> now_request = 1000, now_interceptor = (\<lambda>i. 1001 + 1000 * int i),
        transport = (\<lambda>i c. Responded \<lparr> status = 200, data = JObj [(''errcode'', JNum 0)] \<rparr>),
        elapsed = (\<lambda>i. 1) \<rparr>
      (text_payload (Inl ''hello'')))) ! 0)) ''timestamp'' = Some (JNum 1000) \<and>
   map_of (cfg_params (calls (snd (request
      (new_Robot (\<lambda>c. True)
         \<lparr> url = Some ''https://example.com/hook'', accessToken = None, secret = Some ''SEC'',
           timeout = None, retries = None \<rparr>)
      \<lparr> now_request = 1000, now_interceptor = (\<lambda>i. 1001 + 1000 * int i),
        transport = (\<lambda>i c. Responded \<lparr> status = 200, data = JObj [(''errcode'', JNum 0)] \<rparr>),
        elapsed = (\<lambda>i. 1) \<rparr>
      (text_payload (Inl ''hello'')))) ! 0)) ''_'' = Some (JNum 1001)"
proof -
  let ?env = "\<lparr> now_request = 1000, now_interceptor = (\<lambda>i. 1001 + 1000 * int i),
        transport = (\<lambda>i c. Responded \<lparr> status = 200, data = JObj [(''errcode'', JNum 0)] \<rparr>),
        elapsed = (\<lambda>i. 1) \<rparr>"
  let ?empty = "\<lparr> url = Some ''https://example.com/hook'', accessToken = None, secret = Some [],
           timeout = None, retries = None \<rparr>"
  let ?sec = "\<lparr> url = Some ''https://example.com/hook'', accessToken = None, secret = Some ''SEC'',
           timeout = None, retries = None \<rparr>"
  have u1: "priv_url (new_Robot (\<lambda>c. True) ?empty) = Some ''https://example.com/hook''"
    and u2: "priv_url (new_Robot (\<lambda>c. True) ?sec) = Some ''https://example.com/hook''"
    by (simp_all add: new_Robot_def Let_def)
  have ne: "''https://example.com/hook'' \<noteq> []" by simp
  have l1: "0 < length (calls (snd (request (new_Robot (\<lambda>c. True) ?empty) ?env (text_payload (Inl ''hello'')))))"
    using request_calls_nonempty [OF u1 ne] by simp
  have l2: "0 < length (calls (snd (request (new_Robot (\<lambda>c. True) ?sec) ?env (text_payload (Inl ''hello'')))))"
    using request_calls_nonempty [OF u2 ne] by simp
  show ?thesis
    by (simp add: request_call_params [OF u1 ne l1] request_call_params [OF u2 ne l2]
        request_params_new_Robot)
qed

text \<open>
  C2 (as amended). Let the secret \<open>S\<close> not be the empty string and let the clock read \<open>T\<close> (a
  safe integer, as every reading of the clock is). Every request of the call carries as
  \<^verbatim>\<open>sign\<close> the percent-encoding of the base64 encoding of the HMAC-SHA256 digest, under the
  key \<open>S\<close>, of the UTF-8 bytes of \<open>T\<close> in decimal, a line feed and \<open>S\<close>, and \<open>T\<close> as
  \<^verbatim>\<open>timestamp\<close>. The signature of lines 135 to 137 is made of unreserved characters and
  \<^verbatim>\<open>%XX\<close> escapes only, for every \<open>S\<close> and \<open>T\<close>. Two calls with equal secrets and equal clock
  readings carry equal \<^verbatim>\<open>sign\<close> parameters, whatever else differs (object, payload, network,
  attempt). For the secret \<^verbatim>\<open>SEC0123456789abcdef\<close> and the timestamp \<^verbatim>\<open>1700000000002\<close> the
  digest and the signature are the values that Node computes.
\<close>

theorem C2_signature:
  \<open>(secret opts = Some S \<and> S \<noteq> [] \<and> now_request env = T \<and> isSafeInteger T \<and>
    priv_url (new_Robot ra opts) = Some u \<and> u \<noteq> [] \<longrightarrow>
      calls (snd (request (new_Robot ra opts) env d)) \<noteq> [] \<and>
      (\<forall>c \<in> set (calls (snd (request (new_Robot ra opts) env d))).
         map_of (cfg_params c) ''sign'' =
           Some (JStr (encodeURIComponent
             (base64 (hmac_sha256 (utf8 S) (utf8 (number_to_string T @ [CHR 0x0A] @ S)))))) \<and>
         map_of (cfg_params c) ''timestamp'' = Some (JNum T))) \<and>
   url_safe (sign S T) \<and>
   (secret opts = secret opts' \<and> now_request env = now_request env' \<longrightarrow>
      (\<forall>c \<in> set (calls (snd (request (new_Robot ra opts) env d))).
       \<forall>c' \<in> set (calls (snd (request (new_Robot ra' opts') env' d'))).
         map_of (cfg_params c) ''sign'' = map_of (cfg_params c') ''sign'')) \<and>
   hmac_sha256 (utf8 ''SEC0123456789abcdef'')
       (utf8 (''1700000000002'' @ [CHR 0x0A] @ ''SEC0123456789abcdef'')) =
     [84, 107, 221, 209, 186, 195, 38, 159, 231, 49, 155, 81, 249, 121, 192, 223,
      32, 72, 150, 26, 48, 79, 228, 240, 145, 19, 238, 107, 74, 181, 254, 56] \<and>
   sign ''SEC0123456789abcdef'' 1700000000002 =
     ''VGvd0brDJp%2FnMZtR%2BXnA3yBIlhowT%2BTwkRPua0q1%2Fjg%3D''\<close>
proof -
  have placed: "map_of (cfg_params c) ''sign'' =
           Some (JStr (encodeURIComponent
             (base64 (hmac_sha256 (utf8 S) (utf8 (number_to_string T @ [CHR 0x0A] @ S)))))) \<and>
         map_of (cfg_params c) ''timestamp'' = Some (JNum T)"
    if "secret opts = Some S" "S \<noteq> []" "now_request env = T"
      and "c \<in> set (calls (snd (request (new_Robot ra opts) env d)))" for c
    using request_call_mem_params [OF that(4)] that(1-3)
    by (auto simp: request_params_new_Robot map_of_set_prop_other sign_def)
  have same: "map_of (cfg_params c) ''sign'' = map_of (cfg_params c') ''sign''"
    if "secret opts = secret opts'" "now_request env = now_request env'"
      and "c \<in> set (calls (snd (request (new_Robot ra opts) env d)))"
      and "c' \<in> set (calls (snd (request (new_Robot ra' opts') env' d')))" for c c'
    using request_call_mem_params [OF that(3)] request_call_mem_params [OF that(4)] that(1,2)
    by (auto simp: request_params_new_Robot map_of_set_prop_other split: option.splits)
  show ?thesis
    using placed same request_calls_nonempty [of ra opts u env d] sign_url_safe [of S T]
      hmac_sha256_known_answer sign_known_answer
    by blast
qed

theorem C2_witness:
  "map_of (cfg_params (hd (calls (snd (request
      (new_Robot (\<lambda>c. True)
         \<lparr> url = Some ''https://example.com/hook'', accessToken = None,
           secret = Some ''SEC0123456789abcdef'', timeout = None, retries = None \<rparr>)
      \<lparr> now_request = 1700000000002, now_interceptor = (\<lambda>i. 1700000000003),
        transport = (\<lambda>i c. Responded \<lparr> status = 200, data = JObj [(''errcode'', JNum 0)] \<rparr>),
        elapsed = (\<lambda>i. 1) \<rparr>
      (text_payload (Inl ''hello''))))))) ''sign'' =
     Some (JStr ''VGvd0brDJp%2FnMZtR%2BXnA3yBIlhowT%2BTwkRPua0q1%2Fjg%3D'') \<and>
   url_safe ''VGvd0brDJp%2FnMZtR%2BXnA3yBIlhowT%2BTwkRPua0q1%2Fjg%3D''"
proof -
  let ?S = "''SEC0123456789abcdef''"
  let ?opts = "\<lparr> url = Some ''https://example.com/hook'', accessToken = None,
           secret = Some ?S, timeout = None, retries = None \<rparr>"
  let ?env = "\<lparr> now_request = 1700000000002, now_interceptor = (\<lambda>i. 1700000000003),
        transport = (\<lambda>i c. Responded \<lparr> status = 200, data = JObj [(''errcode'', JNum 0)] \<rparr>),
        elapsed = (\<lambda>i. 1) \<rparr>"
  let ?d = "text_payload (Inl ''hello'')"
  have u: "priv_url (new_Robot (\<lambda>c. True) ?opts) = Some ''https://example.com/hook''"
    by (simp add: new_Robot_def Let_def)
  note inst = C2_signature [of ?opts ?S ?env 1700000000002 "\<lambda>c. True" "''https://example.com/hook''"
      ?d ?opts ?env "\<lambda>c. True" ?d]
  have h: "secret ?opts = Some ?S \<and> ?S \<noteq> [] \<and> now_request ?env = 1700000000002 \<and>
      isSafeInteger 1700000000002 \<and>
      priv_url (new_Robot (\<lambda>c. True) ?opts) = Some ''https://example.com/hook'' \<and>
      ''https://example.com/hook'' \<noteq> []"
    using u by (simp add: isSafeInteger_def)
  from inst have known: "sign ?S 1700000000002 =
      ''VGvd0brDJp%2FnMZtR%2BXnA3yBIlhowT%2BTwkRPua0q1%2Fjg%3D''"
    by blast
  from inst have "url_safe (sign ?S 1700000000002)"
    by blast
  then have safe: "url_safe ''VGvd0brDJp%2FnMZtR%2BXnA3yBIlhowT%2BTwkRPua0q1%2Fjg%3D''"
    by (simp only: known)
  from inst h have placed:
    "calls (snd (request (new_Robot (\<lambda>c. True) ?opts) ?env ?d)) \<noteq> [] \<and>
     (\<forall>c \<in> set (calls (snd (request (new_Robot (\<lambda>c. True) ?opts) ?env ?d))).
         map_of (cfg_params c) ''sign'' =
           Some (JStr (encodeURIComponent
             (base64 (hmac_sha256 (utf8 ?S) (utf8 (number_to_string 1700000000002 @ [CHR 0x0A] @ ?S)))))) \<and>
         map_of (cfg_params c) ''timestamp'' = Some (JNum 1700000000002))"
    by blast
  then have "map_of (cfg_params (hd (calls (snd (request (new_Robot (\<lambda>c. True) ?opts) ?env ?d))))) ''sign'' =
      Some (JStr (sign ?S 1700000000002))"
    unfolding sign_def using list.set_sel(1) by blast
  with safe show ?thesis
    by (simp only: known)
qed

text \<open>
  The claim as the spec states it fails for the secret that is the empty string: line 133
  takes it for absent, and the request carries no signature at all, where the claim puts the
  HMAC under the empty key.
\<close>

theorem C2_counterexample:
  "calls (snd (request
      (new_Robot (\<lambda>c. True)
         \<lparr> url = Some ''https://example.com/hook'', accessToken = None, secret = Some [],
           timeout = None, retries = None \<rparr>)
      \<lparr> now_request = 1700000000002, now_interceptor = (\<lambda>i. 1700000000003),
        transport = (\<lambda>i c. Responded \<lparr> status = 200, data = JObj [(''errcode'', JNum 0)] \<rparr>),
        elapsed = (\<lambda>i. 1) \<rparr>
      (text_payload (Inl ''hello'')))) \<noteq> [] \<and>
   map_of (cfg_params (hd (calls (snd (request
      (new_Robot (\<lambda>c. True)
         \<lparr> url = Some ''https://example.com/hook'', accessToken = None, secret = Some [],
           timeout = None, retries = None \<rparr>)
      \<lparr> now_request = 1700000000002, now_interceptor = (\<lambda>i. 1700000000003),
        transport = (\<lambda>i c. Responded \<lparr> status = 200, data = JObj [(''errcode'', JNum 0)] \<rparr>),
        elapsed = (\<lambda>i. 1) \<rparr>
      (text_payload (Inl ''hello''))))))) ''sign'' = None \<and>
   cfg_params (hd (calls (snd (request
      (new_Robot (\<lambda>c. True)
         \<lparr> url = Some ''https://example.com/hook'', accessToken = None, secret = Some [],
           timeout = None, retries = None \<rparr>)
      \<lparr> now_request = 1700000000002, now_interceptor = (\<lambda>i. 1700000000003),
        transport = (\<lambda>i c. Responded \<lparr> status = 200, data = JObj [(''errcode'', JNum 0)] \<rparr>),
        elapsed = (\<lambda>i. 1) \<rparr>
      (text_payload (Inl ''hello'')))))) = [(''_'', JNum 1700000000003)]"
proof -
  let ?opts = "\<lparr> url = Some ''https://example.com/hook'', accessToken = None, secret = Some [],
           timeout = None, retries = None \<rparr>"
  let ?env = "\<lparr> now_request = 1700000000002, now_interceptor = (\<lambda>i. 1700000000003),
        transport = (\<lambda>i c. Responded \<lparr> status = 200, data = JObj [(''errcode'', JNum 0)] \<rparr>),
        elapsed = (\<lambda>i. 1) \<rparr>"
  let ?d = "text_payload (Inl ''hello'')"
  have u: "priv_url (new_Robot (\<lambda>c. True) ?opts) = Some ''https://example.com/hook''"
    by (simp add: new_Robot_def Let_def)
  have ne: "''https://example.com/hook'' \<noteq> []" by simp
  have sent: "calls (snd (request (new_Robot (\<lambda>c. True) ?opts) ?env ?d)) \<noteq> []"
    using request_calls_nonempty [OF u ne] .
  then have l: "0 < length (calls (snd (request (new_Robot (\<lambda>c. True) ?opts) ?env ?d)))"
    by simp
  have "cfg_params (calls (snd (request (new_Robot (\<lambda>c. True) ?opts) ?env ?d)) ! 0) =
      [(''_'', JNum 1700000000003)]"
    by (simp add: request_call_params [OF u ne l] request_params_new_Robot)
  then have params: "cfg_params (hd (calls (snd (request (new_Robot (\<lambda>c. True) ?opts) ?env ?d)))) =
      [(''_'', JNum 1700000000003)]"
    using sent by (simp add: hd_conv_nth)
  show ?thesis
    using sent by (simp only: params) simp
qed

section \<open>Responses, errors and retries\<close>

lemma settle_accepted:
  "validateStatus (status resp) \<Longrightarrow> settle validateStatus c (Responded resp) = Inr resp"
  by (simp add: settle_def)

lemma settle_refused:
  "\<not> validateStatus (status resp) \<Longrightarrow> status resp \<noteq> 0 \<Longrightarrow>
   settle validateStatus c (Responded resp) =
     Inl \<lparr> code = bad_status_code (status resp),
           message = ''Request failed with status code '' @ number_to_string (status resp),
           config = c, response = Some resp \<rparr>"
  by (simp add: settle_def)

lemma retryCondition_server_error:
  "response err = Some resp \<Longrightarrow> status resp \<ge> 500 \<Longrightarrow> retryCondition ra err"
  by (simp add: retryCondition_def)

lemma retryCondition_client_error:
  assumes "response err = Some resp" and "status resp < 500"
    and "code err \<noteq> Some ''ECONNABORTED''" and "code err \<noteq> Some ''ETIMEDOUT''"
  shows "\<not> retryCondition ra err"
  using assms
  by (simp add: retryCondition_def isNetworkOrIdempotentRequestError_def isNetworkError_def
      isIdempotentRequestError_def isRetryableError_def)

lemma attempt_accepted:
  assumes "transport env i (request_interceptor (now_interceptor env i) cfg) = Responded resp"
    and "validateStatus (status resp)"
  shows "axios_attempt (priv_axiosInstance (new_Robot ra opts)) env i cfg =
     (Inr resp, [Call (request_interceptor (now_interceptor env i) cfg)])"
  by (subst robot_attempt) (simp add: assms settle_accepted)

lemma attempt_client_error:
  assumes "transport env i (request_interceptor (now_interceptor env i) cfg) = Responded resp"
    and "400 \<le> status resp" and "status resp < 500"
  shows "axios_attempt (priv_axiosInstance (new_Robot ra opts)) env i cfg =
     (Inl \<lparr> code = Some ''ERR_BAD_REQUEST'',
            message = ''Request failed with status code '' @ number_to_string (status resp),
            config = request_interceptor (now_interceptor env i) cfg,
            response = Some resp \<rparr>,
      [Call (request_interceptor (now_interceptor env i) cfg)])"
proof -
  have refused: "\<not> validateStatus (status resp)" "status resp \<noteq> 0"
    using assms(2,3) by (simp_all add: validateStatus_def)
  have code: "bad_status_code (status resp) = Some ''ERR_BAD_REQUEST''"
    using assms(2,3) by (simp add: bad_status_code_def)
  have "\<not> retryCondition ra
          \<lparr> code = Some ''ERR_BAD_REQUEST'',
            message = ''Request failed with status code '' @ number_to_string (status resp),
            config = request_interceptor (now_interceptor env i) cfg,
            response = Some resp \<rparr>"
    by (rule retryCondition_client_error [where resp = resp]) (simp_all add: assms(3))
  then show ?thesis
    by (subst robot_attempt) (simp add: assms(1) settle_refused [OF refused] code)
qed

lemma attempt_server_error:
  assumes "transport env i (request_interceptor (now_interceptor env i) cfg) = Responded resp"
    and "500 \<le> status resp" and "int i < priv_retries (new_Robot ra opts)"
  shows "axios_attempt (priv_axiosInstance (new_Robot ra opts)) env i cfg =
     (fst (axios_attempt (priv_axiosInstance (new_Robot ra opts)) env (Suc i)
             (request_interceptor (now_interceptor env i) cfg)),
      Call (request_interceptor (now_interceptor env i) cfg) # Delay 1000 #
      snd (axios_attempt (priv_axiosInstance (new_Robot ra opts)) env (Suc i)
             (request_interceptor (now_interceptor env i) cfg)))"
proof -
  have refused: "\<not> validateStatus (status resp)" "status resp \<noteq> 0"
    using assms(2) by (simp_all add: validateStatus_def)
  have "retryCondition ra
          \<lparr> code = bad_status_code (status resp),
            message = ''Request failed with status code '' @ number_to_string (status resp),
            config = request_interceptor (now_interceptor env i) cfg,
            response = Some resp \<rparr>"
    by (rule retryCondition_server_error [where resp = resp]) (simp_all add: assms(2))
  then show ?thesis
    by (subst robot_attempt) (simp add: assms(1,3) settle_refused [OF refused])
qed

text \<open>\<open>k\<close> attempts in a row, from attempt \<open>i\<close> on, meet a 5xx status and the next one is
  accepted: the loop makes the \<open>k + 1\<close> attempts, with a wait of 1000 ms before each retry.\<close>

lemma retry_chain:
  assumes "\<forall>j. i \<le> j \<and> j < i + k \<longrightarrow>
             (\<exists>r. transport env j (request_interceptor (now_interceptor env j) cfg) = Responded r
                  \<and> 500 \<le> status r)"
    and "transport env (i + k) (request_interceptor (now_interceptor env (i + k)) cfg) = Responded resp"
    and "validateStatus (status resp)"
    and "int (i + k) \<le> priv_retries (new_Robot ra opts)"
  shows "axios_attempt (priv_axiosInstance (new_Robot ra opts)) env i cfg =
     (Inr resp,
      Call (request_interceptor (now_interceptor env i) cfg) #
      concat (map (\<lambda>j. [Delay 1000, Call (request_interceptor (now_interceptor env j) cfg)])
                [Suc i ..< Suc (i + k)]))"
  using assms
proof (induction k arbitrary: i cfg)
  case 0
  then show ?case
    by (simp add: attempt_accepted)
next
  case (Suc k)
  let ?sent = "request_interceptor (now_interceptor env i) cfg"
  from Suc.prems(1) obtain r where r: "transport env i ?sent = Responded r" "500 \<le> status r"
    by force
  have budget: "int i < priv_retries (new_Robot ra opts)"
    using Suc.prems(4) by simp
  have later: "axios_attempt (priv_axiosInstance (new_Robot ra opts)) env (Suc i) ?sent =
     (Inr resp,
      Call (request_interceptor (now_interceptor env (Suc i)) ?sent) #
      concat (map (\<lambda>j. [Delay 1000, Call (request_interceptor (now_interceptor env j) ?sent)])
                [Suc (Suc i) ..< Suc (Suc i + k)]))"
  proof (rule Suc.IH)
    show "\<forall>j. Suc i \<le> j \<and> j < Suc i + k \<longrightarrow>
             (\<exists>r. transport env j (request_interceptor (now_interceptor env j) ?sent) = Responded r
                  \<and> 500 \<le> status r)"
      using Suc.prems(1) by (simp add: request_interceptor_twice)
    show "transport env (Suc i + k) (request_interceptor (now_interceptor env (Suc i + k)) ?sent)
            = Responded resp"
      using Suc.prems(2) by (simp add: request_interceptor_twice)
    show "validateStatus (status resp)" by (rule Suc.prems(3))
    show "int (Suc i + k) \<le> priv_retries (new_Robot ra opts)"
      using Suc.prems(4) by simp
  qed
  have "[Suc i ..< Suc (i + Suc k)] = Suc i # [Suc (Suc i) ..< Suc (Suc i + k)]"
    by (simp del: upt_Suc add: upt_conv_Cons)
  then show ?case
    by (simp only: attempt_server_error [OF r budget] later)
       (simp add: request_interceptor_twice del: upt_Suc)
qed

lemma calls_of_retries:
  "calls (concat (map (\<lambda>j. [Delay ms, Call (f j)]) js)) = map f js"
  by (induction js) simp_all

lemma then_handler_success:
  "get_prop (data resp) ''errcode'' = JNum 0 \<Longrightarrow> then_handler resp = Resolved"
  by (cases "data resp") (simp_all add: then_handler_def)

lemma then_handler_failure:
  "get_prop (data resp) ''errcode'' \<noteq> JNum 0 \<Longrightarrow> then_handler resp \<noteq> Resolved"
  by (simp add: then_handler_def Let_def)

lemma then_handler_envelope:
  assumes "data resp = JObj kvs"
    and "map_of kvs ''errcode'' = Some (JNum c)" and "map_of kvs ''errmsg'' = Some (JStr m)"
  shows "then_handler resp =
     (if c = 0 then Resolved
      else Rejected (Error (''request dingtalk fail, errorcode '' @ [CHR 0x27] @ number_to_string c
                            @ [CHR 0x27] @ '', errormsg '' @ [CHR 0x27] @ m @ [CHR 0x27])))"
  using assms by (simp add: then_handler_def)

section \<open>Claims about retries and errors\<close>

text \<open>
  C1. Let \<open>n \<ge> 0\<close> be the configured retry budget (\<^verbatim>\<open>retries\<close>, or 10 when it is absent), and
  let the network answer each of the attempts \<open>0, \<dots>, n - 1\<close> with the status 500 and
  attempt \<open>n\<close> with a status in [200,300) and a body whose \<^verbatim>\<open>errcode\<close> is 0. Then the call
  is fulfilled; its trace is the first request followed, for each retry, by a wait of
  1000 ms and the request of that retry; the network is called \<open>n + 1\<close> times, and every
  request carries the configured timeout.
\<close>

theorem C1_retry_until_success:
  assumes "priv_url (new_Robot ra opts) = Some u" and "u \<noteq> []"
    and "retries opts = Some (int n) \<or> (retries opts = None \<and> n = 10)"
    and "\<forall>j < n. \<exists>b. transport env j
            (request_interceptor (now_interceptor env j) (request_config (new_Robot ra opts) env u d))
          = Responded \<lparr> status = 500, data = b \<rparr>"
    and "transport env n
            (request_interceptor (now_interceptor env n) (request_config (new_Robot ra opts) env u d))
          = Responded resp"
    and "200 \<le> status resp" and "status resp < 300"
    and "get_prop (data resp) ''errcode'' = JNum 0"
  shows
    "request (new_Robot ra opts) env d =
       (Resolved,
        Call (request_interceptor (now_interceptor env 0) (request_config (new_Robot ra opts) env u d)) #
        concat (map (\<lambda>j. [Delay 1000,
                          Call (request_interceptor (now_interceptor env j)
                                  (request_config (new_Robot ra opts) env u d))])
                  [1 ..< Suc n])) \<and>
     length (calls (snd (request (new_Robot ra opts) env d))) = n + 1 \<and>
     (\<forall>c \<in> set (calls (snd (request (new_Robot ra opts) env d))).
        cfg_timeout c = priv_timeout (new_Robot ra opts))"
proof -
  let ?cfg = "request_config (new_Robot ra opts) env u d"
  have budget: "int (0 + n) \<le> priv_retries (new_Robot ra opts)"
    using assms(3) by (auto simp: new_Robot_retries or_default_def)
  have fails: "\<forall>j. 0 \<le> j \<and> j < 0 + n \<longrightarrow>
      (\<exists>r. transport env j (request_interceptor (now_interceptor env j) ?cfg) = Responded r
           \<and> 500 \<le> status r)"
    using assms(4) by force
  have ok: "transport env (0 + n) (request_interceptor (now_interceptor env (0 + n)) ?cfg)
      = Responded resp"
    using assms(5) by simp
  have valid: "validateStatus (status resp)"
    using assms(6,7) by (simp add: validateStatus_def)
  have run: "request (new_Robot ra opts) env d =
       (Resolved,
        Call (request_interceptor (now_interceptor env 0) ?cfg) #
        concat (map (\<lambda>j. [Delay 1000, Call (request_interceptor (now_interceptor env j) ?cfg)])
                  [1 ..< Suc n]))"
    by (simp add: request_enabled [OF assms(1,2)] retry_chain [OF fails ok valid budget]
        then_handler_success [OF assms(8)] del: upt_Suc)
  have count: "length (calls (snd (request (new_Robot ra opts) env d))) = n + 1"
    by (simp add: run calls_of_retries del: upt_Suc)
  show ?thesis
    using run count request_calls_timeout by blast
qed

theorem C1_witness:
  "fst (request
      (new_Robot (\<lambda>c. True)
         \<lparr> url = Some ''https://example.com/hook'', accessToken = None, secret = None,
           timeout = None, retries = Some 2 \<rparr>)
      \<lparr> now_request = 1000, now_interceptor = (\<lambda>i. 1001),
        transport = (\<lambda>i c. if i < 2 then Responded \<lparr> status = 500, data = JNull \<rparr>
                             else Responded \<lparr> status = 200, data = JObj [(''errcode'', JNum 0)] \<rparr>),
        elapsed = (\<lambda>i. 1) \<rparr>
      (text_payload (Inl ''hello''))) = Resolved \<and>
   length (calls (snd (request
      (new_Robot (\<lambda>c. True)
         \<lparr> url = Some ''https://example.com/hook'', accessToken = None, secret = None,
           timeout = None, retries = Some 2 \<rparr>)
      \<lparr> now_request = 1000, now_interceptor = (\<lambda>i. 1001),
        transport = (\<lambda>i c. if i < 2 then Responded \<lparr> status = 500, data = JNull \<rparr>
                             else Responded \<lparr> status = 200, data = JObj [(''errcode'', JNum 0)] \<rparr>),
        elapsed = (\<lambda>i. 1) \<rparr>
      (text_payload (Inl ''hello''))))) = 3"
proof -
  let ?opts = "\<lparr> url = Some ''https://example.com/hook'', accessToken = None, secret = None,
           timeout = None, retries = Some 2 \<rparr>"
  let ?env = "\<lparr> now_request = 1000, now_interceptor = (\<lambda>i. 1001),
        transport = (\<lambda>i c. if i < 2 then Responded \<lparr> status = 500, data = JNull \<rparr>
                             else Responded \<lparr> status = 200, data = JObj [(''errcode'', JNum 0)] \<rparr>),
        elapsed = (\<lambda>i. 1) \<rparr>"
  let ?R = "new_Robot (\<lambda>c. True) ?opts"
  let ?d = "text_payload (Inl ''hello'')"
  let ?resp = "\<lparr> status = 200, data = JObj [(''errcode'', JNum 0)] \<rparr>"
  have u: "priv_url ?R = Some ''https://example.com/hook''"
    by (simp add: new_Robot_def Let_def)
  have ne: "''https://example.com/hook'' \<noteq> []" by simp
  have budget: "retries ?opts = Some (int 2) \<or> (retries ?opts = None \<and> (2::nat) = 10)"
    by simp
  have fails: "\<forall>j < 2. \<exists>b. transport ?env j
        (request_interceptor (now_interceptor ?env j)
           (request_config ?R ?env ''https://example.com/hook'' ?d))
      = Responded \<lparr> status = 500, data = b \<rparr>"
    by simp
  have ok: "transport ?env 2
        (request_interceptor (now_interceptor ?env 2)
           (request_config ?R ?env ''https://example.com/hook'' ?d))
      = Responded ?resp"
    by simp
  have s: "200 \<le> status ?resp" "status ?resp < 300"
    "get_prop (data ?resp) ''errcode'' = JNum 0"
    by simp_all
  note run = C1_retry_until_success [OF u ne budget fails ok s]
  have a: "fst (request ?R ?env ?d) = Resolved"
    using run [THEN conjunct1] by (simp only: fst_conv)
  have b: "length (calls (snd (request ?R ?env ?d))) = 2 + 1"
    using run [THEN conjunct2, THEN conjunct1] .
  show ?thesis
    using a b by simp
qed

text \<open>
  C3. Let the network answer the first attempt with a status in [200,300) and a body that is
  an envelope with the \<^verbatim>\<open>errcode\<close> \<open>c\<close>, a safe integer, and the string \<^verbatim>\<open>errmsg\<close> \<open>m\<close>. The
  network is called once. When \<open>c\<close> is not 0 the call is rejected with the error of line 158,
  whose message carries \<open>c\<close> in decimal and \<open>m\<close>; when \<open>c\<close> is 0 the call is fulfilled.
\<close>

theorem C3_remote_rejection:
  assumes "priv_url (new_Robot ra opts) = Some u" and "u \<noteq> []"
    and "transport env 0
            (request_interceptor (now_interceptor env 0) (request_config (new_Robot ra opts) env u d))
          = Responded resp"
    and "200 \<le> status resp" and "status resp < 300"
    and "data resp = JObj kvs"
    and "map_of kvs ''errcode'' = Some (JNum c)" and "isSafeInteger c"
    and "map_of kvs ''errmsg'' = Some (JStr m)"
  shows
    "request (new_Robot ra opts) env d =
       (if c = 0 then Resolved
        else Rejected (Error (''request dingtalk fail, errorcode '' @ [CHR 0x27] @ number_to_string c
                              @ [CHR 0x27] @ '', errormsg '' @ [CHR 0x27] @ m @ [CHR 0x27])),
        [Call (request_interceptor (now_interceptor env 0)
                 (request_config (new_Robot ra opts) env u d))]) \<and>
     length (calls (snd (request (new_Robot ra opts) env d))) = 1"
proof -
  have valid: "validateStatus (status resp)"
    using assms(4,5) by (simp add: validateStatus_def)
  have "request (new_Robot ra opts) env d =
       (then_handler resp,
        [Call (request_interceptor (now_interceptor env 0)
                 (request_config (new_Robot ra opts) env u d))])"
    by (simp add: request_enabled [OF assms(1,2)] attempt_accepted [OF assms(3) valid])
  then show ?thesis
    by (simp add: then_handler_envelope [OF assms(6,7,9)])
qed

theorem C3_witness:
  \<open>request
      (new_Robot (\<lambda>c. True)
         \<lparr> url = Some ''https://example.com/hook'', accessToken = None, secret = None,
           timeout = None, retries = None \<rparr>)
      \<lparr> now_request = 1000, now_interceptor = (\<lambda>i. 1001),
        transport = (\<lambda>i c. Responded
           \<lparr> status = 200, data = JObj [(''errcode'', JNum 1), (''errmsg'', JStr ''token invalid'')] \<rparr>),
        elapsed = (\<lambda>i. 1) \<rparr>
      (text_payload (Inl ''hello'')) =
     (Rejected (Error (''request dingtalk fail, errorcode '' @ [CHR 0x27] @ ''1'' @ [CHR 0x27]
                       @ '', errormsg '' @ [CHR 0x27] @ ''token invalid'' @ [CHR 0x27])),
      [Call (request_interceptor 1001
         (request_config
            (new_Robot (\<lambda>c. True)
               \<lparr> url = Some ''https://example.com/hook'', accessToken = None, secret = None,
                 timeout = None, retries = None \<rparr>)
            \<lparr> now_request = 1000, now_interceptor = (\<lambda>i. 1001),
              transport = (\<lambda>i c. Responded
                 \<lparr> status = 200, data = JObj [(''errcode'', JNum 1), (''errmsg'', JStr ''token invalid'')] \<rparr>),
              elapsed = (\<lambda>i. 1) \<rparr>
            ''https://example.com/hook''
            (text_payload (Inl ''hello''))))])\<close>
proof -
  let ?opts = "\<lparr> url = Some ''https://example.com/hook'', accessToken = None, secret = None,
           timeout = None, retries = None \<rparr>"
  let ?resp = "\<lparr> status = 200, data = JObj [(''errcode'', JNum 1), (''errmsg'', JStr ''token invalid'')] \<rparr>"
  let ?env = "\<lparr> now_request = 1000, now_interceptor = (\<lambda>i. 1001),
        transport = (\<lambda>i c. Responded ?resp), elapsed = (\<lambda>i. 1) \<rparr>"
  let ?R = "new_Robot (\<lambda>c. True) ?opts"
  let ?d = "text_payload (Inl ''hello'')"
  have u: "priv_url ?R = Some ''https://example.com/hook''"
    by (simp add: new_Robot_def Let_def)
  have ne: "''https://example.com/hook'' \<noteq> []" by simp
  have first: "transport ?env 0
        (request_interceptor (now_interceptor ?env 0)
           (request_config ?R ?env ''https://example.com/hook'' ?d))
      = Responded ?resp"
    by simp
  have s: "200 \<le> status ?resp" "status ?resp < 300"
    "data ?resp = JObj [(''errcode'', JNum 1), (''errmsg'', JStr ''token invalid'')]"
    "map_of [(''errcode'', JNum 1), (''errmsg'', JStr ''token invalid'')] ''errcode'' = Some (JNum 1)"
    "isSafeInteger 1"
    "map_of [(''errcode'', JNum 1), (''errmsg'', JStr ''token invalid'')] ''errmsg''
       = Some (JStr ''token invalid'')"
    by (simp_all add: isSafeInteger_def)
  have one: "number_to_string 1 = ''1''"
    by (simp add: number_to_string_def digits.simps)
  show ?thesis
    using C3_remote_rejection [OF u ne first s, THEN conjunct1]
    by (simp add: one)
qed

text \<open>
  C8. When the network answers the first attempt with a status in [400,500), the call is
  rejected with the error of the HTTP client after that one attempt. More generally, at any
  attempt of the loop, a response with a status in [400,500) or in [200,300) is the last
  event of the trace: no retry follows it, whatever the body says. When the first attempt
  meets a status in [200,300) and a body whose \<^verbatim>\<open>errcode\<close> is not 0, the call is not
  fulfilled and the network was called once.
\<close>

theorem C8_no_retry_on_client_error:
  assumes "priv_url (new_Robot ra opts) = Some u" and "u \<noteq> []"
    and "transport env 0
            (request_interceptor (now_interceptor env 0) (request_config (new_Robot ra opts) env u d))
          = Responded resp"
  shows
    "(400 \<le> status resp \<and> status resp < 500 \<longrightarrow>
        request (new_Robot ra opts) env d =
          (Rejected (AxiosErr
             \<lparr> code = Some ''ERR_BAD_REQUEST'',
               message = ''Request failed with status code '' @ number_to_string (status resp),
               config = request_interceptor (now_interceptor env 0)
                          (request_config (new_Robot ra opts) env u d),
               response = Some resp \<rparr>),
           [Call (request_interceptor (now_interceptor env 0)
                    (request_config (new_Robot ra opts) env u d))])) \<and>
     (200 \<le> status resp \<and> status resp < 300 \<and> get_prop (data resp) ''errcode'' \<noteq> JNum 0 \<longrightarrow>
        fst (request (new_Robot ra opts) env d) \<noteq> Resolved \<and>
        snd (request (new_Robot ra opts) env d) =
          [Call (request_interceptor (now_interceptor env 0)
                   (request_config (new_Robot ra opts) env u d))]) \<and>
     (\<forall>i cfg r.
        transport env i (request_interceptor (now_interceptor env i) cfg) = Responded r \<and>
        (400 \<le> status r \<and> status r < 500 \<or> 200 \<le> status r \<and> status r < 300) \<longrightarrow>
        snd (axios_attempt (priv_axiosInstance (new_Robot ra opts)) env i cfg) =
          [Call (request_interceptor (now_interceptor env i) cfg)])"
proof (intro conjI impI allI)
  assume "400 \<le> status resp \<and> status resp < 500"
  then show "request (new_Robot ra opts) env d =
          (Rejected (AxiosErr
             \<lparr> code = Some ''ERR_BAD_REQUEST'',
               message = ''Request failed with status code '' @ number_to_string (status resp),
               config = request_interceptor (now_interceptor env 0)
                          (request_config (new_Robot ra opts) env u d),
               response = Some resp \<rparr>),
           [Call (request_interceptor (now_interceptor env 0)
                    (request_config (new_Robot ra opts) env u d))])"
    by (simp add: request_enabled [OF assms(1,2)] attempt_client_error [OF assms(3)])
next
  assume ok: "200 \<le> status resp \<and> status resp < 300 \<and> get_prop (data resp) ''errcode'' \<noteq> JNum 0"
  then have valid: "validateStatus (status resp)"
    by (simp add: validateStatus_def)
  from ok show "fst (request (new_Robot ra opts) env d) \<noteq> Resolved"
    by (simp add: request_enabled [OF assms(1,2)] attempt_accepted [OF assms(3) valid]
        then_handler_failure)
  show "snd (request (new_Robot ra opts) env d) =
          [Call (request_interceptor (now_interceptor env 0)
                   (request_config (new_Robot ra opts) env u d))]"
    by (simp add: request_enabled [OF assms(1,2)] attempt_accepted [OF assms(3) valid])
next
  fix i cfg r
  assume a: "transport env i (request_interceptor (now_interceptor env i) cfg) = Responded r \<and>
        (400 \<le> status r \<and> status r < 500 \<or> 200 \<le> status r \<and> status r < 300)"
  then consider "400 \<le> status r" "status r < 500" | "validateStatus (status r)"
    by (auto simp: validateStatus_def)
  then show "snd (axios_attempt (priv_axiosInstance (new_Robot ra opts)) env i cfg) =
          [Call (request_interceptor (now_interceptor env i) cfg)]"
  proof cases
    case 1
    with a show ?thesis by (simp add: attempt_client_error)
  next
    case 2
    with a show ?thesis by (simp add: attempt_accepted)
  qed
qed

theorem C8_witness:
  "snd (request
      (new_Robot (\<lambda>c. True)
         \<lparr> url = Some ''https://example.com/hook'', accessToken = None, secret = None,
           timeout = None, retries = None \<rparr>)
      \<lparr> now_request = 1000, now_interceptor = (\<lambda>i. 1001),
        transport = (\<lambda>i c. Responded \<lparr> status = 400, data = JStr ''Bad Request'' \<rparr>),
        elapsed = (\<lambda>i. 1) \<rparr>
      (text_payload (Inl ''hello''))) =
     [Call (request_interceptor 1001
         (request_config
            (new_Robot (\<lambda>c. True)
               \<lparr> url = Some ''https://example.com/hook'', accessToken = None, secret = None,
                 timeout = None, retries = None \<rparr>)
            \<lparr> now_request = 1000, now_interceptor = (\<lambda>i. 1001),
              transport = (\<lambda>i c. Responded \<lparr> status = 400, data = JStr ''Bad Request'' \<rparr>),
              elapsed = (\<lambda>i. 1) \<rparr>
            ''https://example.com/hook''
            (text_payload (Inl ''hello''))))]"
proof -
  let ?opts = "\<lparr> url = Some ''https://example.com/hook'', accessToken = None, secret = None,
           timeout = None, retries = None \<rparr>"
  let ?resp = "\<lparr> status = 400, data = JStr ''Bad Request'' \<rparr>"
  let ?env = "\<lparr> now_request = 1000, now_interceptor = (\<lambda>i. 1001),
        transport = (\<lambda>i c. Responded ?resp), elapsed = (\<lambda>i. 1) \<rparr>"
  let ?R = "new_Robot (\<lambda>c. True) ?opts"
  let ?d = "text_payload (Inl ''hello'')"
  have u: "priv_url ?R = Some ''https://example.com/hook''"
    by (simp add: new_Robot_def Let_def)
  have ne: "''https://example.com/hook'' \<noteq> []" by simp
  have first: "transport ?env 0
        (request_interceptor (now_interceptor ?env 0)
           (request_config ?R ?env ''https://example.com/hook'' ?d))
      = Responded ?resp"
    by simp
  show ?thesis
    using C8_no_retry_on_client_error [OF u ne first, THEN conjunct1]
    by simp
qed

end
